theory Spec2Isabelle
  imports Main
begin

section \<open>JavaScript values and strings\<close>

text \<open>
  The values the services inspect with \<^verbatim>\<open>!x\<close>, \<^verbatim>\<open>typeof x\<close> and \<^verbatim>\<open>x || y\<close>.
  Numbers are the integers. \<open>JObject t\<close> stands for any object, array or function, which
  the code under study only ever tests for truthiness, tests for not being a string, or
  converts to the string \<open>t\<close>.
\<close>

datatype jsval = JUndefined | JNull | JBool bool | JNum int | JStr string | JObject string

fun truthy :: "jsval \<Rightarrow> bool" where
  "truthy JUndefined = False"
| "truthy JNull = False"
| "truthy (JBool b) = b"
| "truthy (JNum n) = (n \<noteq> 0)"
| "truthy (JStr s) = (s \<noteq> [])"
| "truthy (JObject t) = True"

fun is_number :: "jsval \<Rightarrow> bool" where
  "is_number (JNum n) = True"
| "is_number v = False"

definition js_or :: "jsval \<Rightarrow> jsval \<Rightarrow> jsval" where
  "js_or a b = (if truthy a then a else b)"

text \<open>\<^verbatim>\<open>String(v)\<close>, as a template literal or a property key converts a value.\<close>

fun show_nat :: "nat \<Rightarrow> string" where
  "show_nat n =
     (if n < 10 then [''0123456789'' ! n]
      else show_nat (n div 10) @ [''0123456789'' ! (n mod 10)])"

declare show_nat.simps [simp del]

fun toString :: "jsval \<Rightarrow> string" where
  "toString JUndefined = ''undefined''"
| "toString JNull = ''null''"
| "toString (JBool b) = (if b then ''true'' else ''false'')"
| "toString (JNum n) = (if n < 0 then ''-'' @ show_nat (nat (- n)) else show_nat (nat n))"
| "toString (JStr s) = s"
| "toString (JObject t) = t"

text \<open>
  A string is a list of code units below 256, which is what Node hands over for a header
  value. \<^verbatim>\<open>toLowerCase\<close> on that range maps A-Z and the Latin-1 capitals (U+00C0 to
  U+00DE without U+00D7) 32 places up; \<^verbatim>\<open>trim\<close> removes the white space and line
  terminators of that range from both ends.
\<close>

definition lower_char :: "char \<Rightarrow> char" where
  "lower_char c =
     (let n = (of_char c :: nat) in
      if (65 \<le> n \<and> n \<le> 90) \<or> (192 \<le> n \<and> n \<le> 214) \<or> (216 \<le> n \<and> n \<le> 222)
      then char_of (n + 32) else c)"

definition toLowerCase :: "string \<Rightarrow> string" where
  "toLowerCase s = map lower_char s"

definition is_space :: "char \<Rightarrow> bool" where
  "is_space c = ((of_char c :: nat) \<in> {9, 10, 11, 12, 13, 32, 160})"

definition trim :: "string \<Rightarrow> string" where
  "trim s = rev (dropWhile is_space (rev (dropWhile is_space s)))"

definition startsWith :: "string \<Rightarrow> string \<Rightarrow> bool" where
  "startsWith s p = (take (length p) s = p)"

definition slice :: "string \<Rightarrow> nat \<Rightarrow> string" where
  "slice s n = drop n s"

definition includes_char :: "string \<Rightarrow> char \<Rightarrow> bool" where
  "includes_char s c = (c \<in> set s)"

text \<open>\<^verbatim>\<open>s.split(c)\<close> for a one-character separator: never the empty list.\<close>

fun split :: "char \<Rightarrow> string \<Rightarrow> string list" where
  "split c [] = [[]]"
| "split c (x # xs) =
     (if x = c then [] # split c xs
      else (case split c xs of [] \<Rightarrow> [[x]] | p # ps \<Rightarrow> (x # p) # ps))"

section \<open>Configuration and error objects\<close>

text \<open>
  \<^verbatim>\<open>getAuthConfig()\<close> of src/utils/config.js, flattened: \<^verbatim>\<open>config.jwt.secret\<close> (the empty
  string when JWT_SECRET is not set), \<^verbatim>\<open>config.jwt.expiresIn\<close>,
  \<^verbatim>\<open>config.auth.allowedDomain\<close> and \<^verbatim>\<open>config.server.frontendUrl\<close>.
\<close>

record config =
  jwt_secret :: string
  jwt_expiresIn :: string
  auth_allowedDomain :: string
  server_frontendUrl :: string

text \<open>
  A thrown \<^verbatim>\<open>Error\<close> with the ad hoc fields the services attach. \<open>code\<close> and
  \<open>statusCode\<close> are \<open>None\<close> while the property is undefined.
\<close>

record js_error =
  err_name :: string
  message :: string
  code :: "string option"
  statusCode :: "nat option"
  originalError :: "string option"
  userDomain :: "string option"
  allowedDomain :: "string option"

definition new_Error :: "string \<Rightarrow> js_error" where
  "new_Error m =
     \<lparr>err_name = ''Error'', message = m, code = None, statusCode = None,
      originalError = None, userDomain = None, allowedDomain = None\<rparr>"

definition named_Error :: "string \<Rightarrow> string \<Rightarrow> js_error" where
  "named_Error n m = (new_Error m)\<lparr>err_name := n\<rparr>"

definition coded_Error :: "string \<Rightarrow> string \<Rightarrow> nat \<Rightarrow> js_error" where
  "coded_Error m c s = (new_Error m)\<lparr>code := Some c, statusCode := Some s\<rparr>"

text \<open>\<^verbatim>\<open>!error.code\<close> and \<^verbatim>\<open>!error.statusCode\<close>.\<close>

definition no_code :: "js_error \<Rightarrow> bool" where
  "no_code e = (case code e of None \<Rightarrow> True | Some c \<Rightarrow> c = [])"

definition no_statusCode :: "js_error \<Rightarrow> bool" where
  "no_statusCode e = (case statusCode e of None \<Rightarrow> True | Some s \<Rightarrow> s = 0)"

text \<open>
  The catch blocks of the services: \<^verbatim>\<open>if (!error.code) error.code = c;
  if (!error.statusCode) error.statusCode = s; this.handleError(error)\<close>, where
  \<^verbatim>\<open>BaseService.handleError\<close> logs and throws the same error again.
\<close>

definition ensure_structure :: "string \<Rightarrow> nat \<Rightarrow> js_error \<Rightarrow> js_error" where
  "ensure_structure c s e =
     (let e1 = (if no_code e then e\<lparr>code := Some c\<rparr> else e)
      in if no_statusCode e1 then e1\<lparr>statusCode := Some s\<rparr> else e1)"

section \<open>Identity payloads and session claims\<close>

text \<open>
  \<open>identity\<close> holds the four properties \<^verbatim>\<open>generateToken\<close> reads from its payload; any
  object with more properties is an extension of it. \<open>domained\<close> adds the \<^verbatim>\<open>domain\<close>
  property, \<open>claims\<close> the registered claims of a decoded token.
\<close>

record identity =
  id' :: jsval
  email :: jsval
  name :: jsval
  picture :: jsval

record domained = identity +
  domain :: jsval

record claims = domained +
  iss :: jsval
  aud :: jsval
  iat :: jsval
  exp :: jsval
  nbf :: jsval

section \<open>The token library\<close>

text \<open>
  Modelled from the spec: the \<^verbatim>\<open>jsonwebtoken\<close> package (\<^verbatim>\<open>jwt.sign\<close>, \<^verbatim>\<open>jwt.verify\<close>) is a
  dependency of the repository and not among its sources. The spec describes a bearer
  token as an opaque string
  wrapping the claims plus a signature over them with a server-held secret, stamped with
  an issued-at and an expiry, and verified for signature, expiration, issuer and audience
  together, failing as expired, as malformed or badly signed, or as not yet valid.

  The wire format and the HMAC are not modelled: a \<open>runtime\<close> supplies \<open>jwt_encode\<close> and
  \<open>jwt_decode\<close> between token strings and the structure \<open>jwt\<close>, whose \<open>key\<close> is the secret
  under which its signature verifies. \<open>jwt_decode\<close> returns the error the library throws
  on a string it cannot decode. \<open>ms\<close> parses a time span such as \<^verbatim>\<open>24h\<close> into
  milliseconds. \<open>encodeURIComponent\<close> and \<open>JSON_stringify\<close> are the platform functions the
  callback handler applies to its redirect parameters.
\<close>

record jwt =
  alg :: string
  key :: string
  payload :: claims

record runtime =
  jwt_encode :: "jwt \<Rightarrow> string"
  jwt_decode :: "string \<Rightarrow> js_error + jwt"
  ms :: "string \<Rightarrow> int option"
  encodeURIComponent :: "string \<Rightarrow> string"
  JSON_stringify :: "domained \<Rightarrow> string"

text \<open>
  Modelled from the spec: the expiry stamped by \<^verbatim>\<open>jwt.sign\<close> for its \<^verbatim>\<open>expiresIn\<close> option,
  a number of seconds or a time-span string, counted from the issue time; anything else
  is refused.
\<close>

fun timespan :: "(string \<Rightarrow> int option) \<Rightarrow> jsval \<Rightarrow> int \<Rightarrow> int option" where
  "timespan parse (JNum n) t = Some (t + n)"
| "timespan parse (JStr s) t =
     (if s = [] then None
      else (case parse s of None \<Rightarrow> None | Some m \<Rightarrow> Some (t + m div 1000)))"
| "timespan parse v t = None"

text \<open>
  Modelled from the spec: \<^verbatim>\<open>jwt.sign(payload, secret, {expiresIn, algorithm: 'HS256'})\<close> at
  clock second \<open>now\<close>. It throws without a secret or with an unusable \<^verbatim>\<open>expiresIn\<close>.
\<close>

definition jwt_sign :: "runtime \<Rightarrow> claims \<Rightarrow> string \<Rightarrow> jsval \<Rightarrow> int \<Rightarrow> js_error + string" where
  "jwt_sign rt pl secret expiresIn now =
     (if secret = [] then Inl (new_Error ''secretOrPrivateKey must have a value'')
      else (case timespan (ms rt) expiresIn now of
              None \<Rightarrow> Inl (new_Error ''\"expiresIn\" should be a number of seconds or string representing a timespan'')
            | Some e \<Rightarrow>
                Inr (jwt_encode rt
                  \<lparr>alg = ''HS256'', key = secret,
                   payload = pl\<lparr>iat := JNum now, exp := JNum e\<rparr>\<rparr>)))"

text \<open>
  Modelled from the spec: \<^verbatim>\<open>jwt.verify(token, secret, {algorithms: ['HS256'], audience,
  issuer})\<close> at clock second \<open>now\<close>: decoding, algorithm and signature first, then
  not-before, expiry, audience and issuer. An audience claim given as an array is not
  modelled: the tokens of this service carry it as a string.
\<close>

definition jwt_verify ::
  "runtime \<Rightarrow> string \<Rightarrow> string \<Rightarrow> string \<Rightarrow> string \<Rightarrow> int \<Rightarrow> js_error + claims" where
  "jwt_verify rt token secret audience issuer now =
     (case jwt_decode rt token of
        Inl e \<Rightarrow> Inl e
      | Inr j \<Rightarrow>
          if secret = [] then
            Inl (named_Error ''JsonWebTokenError'' ''secret or public key must be provided'')
          else if alg j \<noteq> ''HS256'' then
            Inl (named_Error ''JsonWebTokenError'' ''invalid algorithm'')
          else if key j \<noteq> secret then
            Inl (named_Error ''JsonWebTokenError'' ''invalid signature'')
          else if nbf (payload j) \<noteq> JUndefined \<and> \<not> is_number (nbf (payload j)) then
            Inl (named_Error ''JsonWebTokenError'' ''invalid nbf value'')
          else if (case nbf (payload j) of JNum n \<Rightarrow> n > now | _ \<Rightarrow> False) then
            Inl (named_Error ''NotBeforeError'' ''jwt not active'')
          else if exp (payload j) \<noteq> JUndefined \<and> \<not> is_number (exp (payload j)) then
            Inl (named_Error ''JsonWebTokenError'' ''invalid exp value'')
          else if (case exp (payload j) of JNum e \<Rightarrow> now \<ge> e | _ \<Rightarrow> False) then
            Inl (named_Error ''TokenExpiredError'' ''jwt expired'')
          else if aud (payload j) \<noteq> JStr audience then
            Inl (named_Error ''JsonWebTokenError'' ''jwt audience invalid'')
          else if iss (payload j) \<noteq> JStr issuer then
            Inl (named_Error ''JsonWebTokenError'' ''jwt issuer invalid'')
          else Inr (payload j))"

section \<open>JWTService\<close>

text \<open>
  \<^verbatim>\<open>JWTService.extractDomain\<close>: throws a plain error unless the email is a string with
  an \<^verbatim>\<open>@\<close>, and returns the second piece of \<^verbatim>\<open>email.split('@')\<close>. A truthy value
  that is not a string has no \<^verbatim>\<open>includes\<close> method, which is a \<^verbatim>\<open>TypeError\<close>.
\<close>

fun extractDomain :: "jsval \<Rightarrow> js_error + string" where
  "extractDomain (JStr e) =
     (if e = [] \<or> \<not> includes_char e CHR ''@''
      then Inl (new_Error ''Invalid email format'')
      else Inr (split CHR ''@'' e ! 1))"
| "extractDomain v =
     (if truthy v then Inl (named_Error ''TypeError'' ''email.includes is not a function'')
      else Inl (new_Error ''Invalid email format''))"

text \<open>
  \<^verbatim>\<open>JWTService.validateEmailDomain\<close>: \<open>Inr False\<close> for a falsy or non-string email;
  otherwise the comparison of the lower-cased domains, or the error \<open>extractDomain\<close> throws.
\<close>

definition validateEmailDomain :: "config \<Rightarrow> jsval \<Rightarrow> js_error + bool" where
  "validateEmailDomain cfg e =
     (case e of
        JStr s \<Rightarrow>
          (if s = [] then Inr False
           else (case extractDomain e of
                   Inl err \<Rightarrow> Inl err
                 | Inr d \<Rightarrow> Inr (toLowerCase d = toLowerCase (auth_allowedDomain cfg))))
      | _ \<Rightarrow> Inr False)"

text \<open>
  The body of the \<^verbatim>\<open>try\<close> block of \<^verbatim>\<open>generateToken(payload, expiresIn = null)\<close>. The
  payload is \<open>None\<close> when the argument is not an object.
\<close>

definition generateToken_try ::
  "runtime \<Rightarrow> config \<Rightarrow> int \<Rightarrow> 'a identity_scheme option \<Rightarrow> jsval \<Rightarrow> js_error + string" where
  "generateToken_try rt cfg now arg expiresIn =
     (case arg of
        None \<Rightarrow> Inl (coded_Error ''Token payload must be a valid object'' ''INVALID_PAYLOAD'' 400)
      | Some p \<Rightarrow>
          if \<not> truthy (id' p) \<or> \<not> truthy (email p) then
            Inl (coded_Error ''Token payload must include id and email'' ''MISSING_REQUIRED_FIELDS'' 400)
          else
            (case validateEmailDomain cfg (email p) of
               Inl err \<Rightarrow> Inl err
             | Inr False \<Rightarrow>
                 Inl (coded_Error ''Invalid email domain for token generation'' ''INVALID_DOMAIN'' 403)
             | Inr True \<Rightarrow>
                 (case extractDomain (email p) of
                    Inl err \<Rightarrow> Inl err
                  | Inr d \<Rightarrow>
                      (case jwt_sign rt
                              \<lparr>id' = id' p, email = email p, name = name p, picture = picture p,
                               domain = JStr d, iss = JStr ''warehouse-api'',
                               aud = JStr ''warehouse-frontend'', iat = JUndefined,
                               exp = JUndefined, nbf = JUndefined\<rparr>
                              (jwt_secret cfg) (js_or expiresIn (JStr (jwt_expiresIn cfg))) now of
                         Inl jwtError \<Rightarrow>
                           Inl ((coded_Error ''Failed to sign JWT token'' ''TOKEN_SIGNING_ERROR'' 500)
                                  \<lparr>originalError := Some (message jwtError)\<rparr>)
                       | Inr token \<Rightarrow> Inr token))))"

definition generateToken ::
  "runtime \<Rightarrow> config \<Rightarrow> int \<Rightarrow> 'a identity_scheme option \<Rightarrow> jsval \<Rightarrow> js_error + string" where
  "generateToken rt cfg now arg expiresIn =
     (case generateToken_try rt cfg now arg expiresIn of
        Inl err \<Rightarrow> Inl (ensure_structure ''TOKEN_GENERATION_ERROR'' 500 err)
      | Inr token \<Rightarrow> Inr token)"

definition getJWTErrorMessage :: "js_error \<Rightarrow> string" where
  "getJWTErrorMessage jwtError =
     (if err_name jwtError = ''TokenExpiredError'' then
        ''Your session has expired. Please sign in again.''
      else if err_name jwtError = ''JsonWebTokenError'' then
        ''Invalid authentication token. Please sign in again.''
      else if err_name jwtError = ''NotBeforeError'' then
        ''Authentication token is not yet valid.''
      else ''Authentication token verification failed.'')"

definition getJWTErrorCode :: "js_error \<Rightarrow> string" where
  "getJWTErrorCode jwtError =
     (if err_name jwtError = ''TokenExpiredError'' then ''TOKEN_EXPIRED''
      else if err_name jwtError = ''JsonWebTokenError'' then ''INVALID_TOKEN''
      else if err_name jwtError = ''NotBeforeError'' then ''TOKEN_NOT_ACTIVE''
      else ''TOKEN_VERIFICATION_ERROR'')"

text \<open>The body of the \<^verbatim>\<open>try\<close> block of \<^verbatim>\<open>verifyToken(token)\<close>, for a string argument.\<close>

definition verifyToken_try :: "runtime \<Rightarrow> config \<Rightarrow> int \<Rightarrow> string \<Rightarrow> js_error + claims" where
  "verifyToken_try rt cfg now token =
     (if token = [] then
        Inl (coded_Error ''Token must be a valid string'' ''INVALID_TOKEN_FORMAT'' 400)
      else
        let cleanToken = (if startsWith token ''Bearer '' then slice token 7 else token) in
        if trim cleanToken = [] then
          Inl (coded_Error ''Token cannot be empty'' ''EMPTY_TOKEN'' 400)
        else
          (case jwt_verify rt cleanToken (jwt_secret cfg) ''warehouse-frontend'' ''warehouse-api'' now of
             Inl jwtError \<Rightarrow>
               Inl ((coded_Error (getJWTErrorMessage jwtError) (getJWTErrorCode jwtError)
                       (if getJWTErrorCode jwtError = ''TOKEN_EXPIRED'' then 401 else 400))
                      \<lparr>originalError := Some (message jwtError)\<rparr>)
           | Inr decoded \<Rightarrow>
               if \<not> truthy (id' decoded) \<or> \<not> truthy (email decoded) then
                 Inl (coded_Error ''Token payload is missing required fields'' ''INVALID_TOKEN_PAYLOAD'' 400)
               else
                 (case validateEmailDomain cfg (email decoded) of
                    Inl err \<Rightarrow> Inl err
                  | Inr False \<Rightarrow>
                      Inl (coded_Error ''Token contains invalid email domain'' ''INVALID_DOMAIN'' 403)
                  | Inr True \<Rightarrow> Inr decoded)))"

definition verifyToken :: "runtime \<Rightarrow> config \<Rightarrow> int \<Rightarrow> string \<Rightarrow> js_error + claims" where
  "verifyToken rt cfg now token =
     (case verifyToken_try rt cfg now token of
        Inl err \<Rightarrow> Inl (ensure_structure ''TOKEN_VERIFICATION_ERROR'' 400 err)
      | Inr decoded \<Rightarrow> Inr decoded)"

text \<open>
  The catch block of \<^verbatim>\<open>refreshToken\<close>: a structured error is thrown again unchanged, any
  other is wrapped.
\<close>

definition refresh_catch :: "js_error \<Rightarrow> js_error" where
  "refresh_catch err =
     (if \<not> no_code err \<and> \<not> no_statusCode err then err
      else (coded_Error (''Token refresh failed: '' @ message err) ''TOKEN_REFRESH_ERROR'' 400)
             \<lparr>originalError := Some (message err)\<rparr>)"

text \<open>
  \<^verbatim>\<open>refreshToken(token)\<close>: the decoded payload without \<^verbatim>\<open>iat\<close>, \<^verbatim>\<open>exp\<close>, \<^verbatim>\<open>iss\<close> and
  \<^verbatim>\<open>aud\<close> goes to \<^verbatim>\<open>generateToken\<close> with the default expiry (a not-before claim would stay
  in the object too, and \<^verbatim>\<open>generateToken\<close> does not read it). Both calls read the clock
  second \<open>now\<close>.
\<close>

definition refreshToken :: "runtime \<Rightarrow> config \<Rightarrow> int \<Rightarrow> string \<Rightarrow> js_error + string" where
  "refreshToken rt cfg now token =
     (case verifyToken rt cfg now token of
        Inl err \<Rightarrow> Inl (refresh_catch err)
      | Inr decoded \<Rightarrow>
          (case generateToken rt cfg now
                  (Some \<lparr>id' = id' decoded, email = email decoded, name = name decoded,
                         picture = picture decoded, domain = domain decoded\<rparr>) JNull of
             Inl err \<Rightarrow> Inl (refresh_catch err)
           | Inr newToken \<Rightarrow> Inr newToken))"

subsection \<open>Issued structures and the library's side of a round trip\<close>

text \<open>
  The structure \<^verbatim>\<open>generateToken\<close> hands to the library for a payload \<open>p\<close> whose email has
  the domain \<open>d\<close>: the \<^verbatim>\<open>tokenPayload\<close> literal of lines 49 to 57, stamped by \<^verbatim>\<open>jwt.sign\<close>
  with the issue second \<open>t\<close> and the expiry \<open>ex\<close>, under the configured secret.
\<close>

definition issued :: "config \<Rightarrow> 'a identity_scheme \<Rightarrow> string \<Rightarrow> int \<Rightarrow> int \<Rightarrow> jwt" where
  "issued cfg p d t ex =
     \<lparr>alg = ''HS256'', key = jwt_secret cfg,
      payload = \<lparr>id' = id' p, email = email p, name = name p, picture = picture p,
                 domain = JStr d, iss = JStr ''warehouse-api'',
                 aud = JStr ''warehouse-frontend'', iat = JNum t, exp = JNum ex,
                 nbf = JUndefined\<rparr>\<rparr>"

text \<open>
  What the theorems below assume of the library for one token string: the token is not
  blank, does not itself begin with the scheme prefix, and decoding it gives back the
  structure that was encoded as it.
\<close>

definition library_decodes :: "runtime \<Rightarrow> string \<Rightarrow> bool" where
  "library_decodes rt tok =
     (\<not> startsWith tok ''Bearer '' \<and> trim tok \<noteq> [] \<and>
      (\<forall>j. jwt_encode rt j = tok \<longrightarrow> jwt_decode rt tok = Inr j))"

section \<open>AuthMiddleware\<close>

text \<open>
  The request as the middleware reads and writes it: the \<^verbatim>\<open>Authorization\<close> header,
  \<^verbatim>\<open>req.user\<close> (undefined, null or the identity context) and \<^verbatim>\<open>req.tokenInfo\<close>.
\<close>

record user_context = domained +
  isAuthenticated :: bool

record token_info =
  token :: string
  issuedAt :: jsval
  expiresAt :: jsval

datatype 'a js_prop = Absent | IsNull | Present 'a

record request =
  authorization :: "string option"
  user :: "user_context js_prop"
  tokenInfo :: "token_info option"

text \<open>
  The JSON error response \<^verbatim>\<open>res.status(s).json({error, code, timestamp})\<close>; the time
  stamp is the wall clock and is left out.
\<close>

record response =
  res_status :: nat
  res_error :: string
  res_code :: string

datatype outcome = Next request | Responded response

definition sendUnauthorizedResponse :: "string \<Rightarrow> string \<Rightarrow> response" where
  "sendUnauthorizedResponse msg c = \<lparr>res_status = 401, res_error = msg, res_code = c\<rparr>"

definition sendForbiddenResponse :: "string \<Rightarrow> string \<Rightarrow> response" where
  "sendForbiddenResponse msg c = \<lparr>res_status = 403, res_error = msg, res_code = c\<rparr>"

definition extractTokenFromHeader :: "request \<Rightarrow> string option" where
  "extractTokenFromHeader req =
     (case authorization req of
        None \<Rightarrow> None
      | Some authHeader \<Rightarrow>
          if authHeader = [] then None
          else if startsWith authHeader ''Bearer '' then Some (slice authHeader 7)
          else if \<not> includes_char authHeader CHR '' '' then Some authHeader
          else None)"

definition handleAuthenticationError :: "js_error \<Rightarrow> response" where
  "handleAuthenticationError error =
     (if code error = Some ''TOKEN_EXPIRED'' then
        sendUnauthorizedResponse ''Your session has expired. Please sign in again.'' ''TOKEN_EXPIRED''
      else if code error = Some ''INVALID_TOKEN'' \<or> code error = Some ''INVALID_TOKEN_FORMAT''
              \<or> code error = Some ''INVALID_TOKEN_PAYLOAD'' then
        sendUnauthorizedResponse ''Invalid authentication token. Please sign in again.'' ''INVALID_TOKEN''
      else if code error = Some ''EMPTY_TOKEN'' then
        sendUnauthorizedResponse ''Authentication token is required.'' ''MISSING_TOKEN''
      else if code error = Some ''INVALID_DOMAIN'' then
        sendForbiddenResponse ''Access restricted to authorized domains.'' ''DOMAIN_RESTRICTED''
      else if code error = Some ''TOKEN_NOT_ACTIVE'' then
        sendUnauthorizedResponse ''Authentication token is not yet valid.'' ''TOKEN_NOT_ACTIVE''
      else
        let sc = (if no_statusCode error then 401 else the (statusCode error));
            msg = (if sc \<ge> 500 then ''Authentication service error. Please try again.''
                   else if message error = [] then ''Authentication failed'' else message error)
        in sendUnauthorizedResponse msg ''AUTH_FAILED'')"

text \<open>The assignments to \<^verbatim>\<open>req.user\<close> and \<^verbatim>\<open>req.tokenInfo\<close> after a successful verification.\<close>

definition attach :: "request \<Rightarrow> string \<Rightarrow> claims \<Rightarrow> request" where
  "attach req tok userPayload =
     req\<lparr>user := Present \<lparr>id' = id' userPayload, email = email userPayload,
                           name = name userPayload, picture = picture userPayload,
                           domain = domain userPayload, isAuthenticated = True\<rparr>,
         tokenInfo := Some \<lparr>token = tok, issuedAt = iat userPayload,
                            expiresAt = exp userPayload\<rparr>\<rparr>"

definition authenticateJWT :: "runtime \<Rightarrow> config \<Rightarrow> int \<Rightarrow> request \<Rightarrow> outcome" where
  "authenticateJWT rt cfg now req =
     (case extractTokenFromHeader req of
        None \<Rightarrow> Responded (sendUnauthorizedResponse ''No authentication token provided'' ''UNAUTHORIZED'')
      | Some tok \<Rightarrow>
          if tok = [] then
            Responded (sendUnauthorizedResponse ''No authentication token provided'' ''UNAUTHORIZED'')
          else
            (case verifyToken rt cfg now tok of
               Inl error \<Rightarrow> Responded (handleAuthenticationError error)
             | Inr userPayload \<Rightarrow> Next (attach req tok userPayload)))"

definition optionalAuthentication :: "runtime \<Rightarrow> config \<Rightarrow> int \<Rightarrow> request \<Rightarrow> outcome" where
  "optionalAuthentication rt cfg now req =
     (case extractTokenFromHeader req of
        None \<Rightarrow> Next (req\<lparr>user := IsNull\<rparr>)
      | Some tok \<Rightarrow>
          if tok = [] then Next (req\<lparr>user := IsNull\<rparr>)
          else
            (case verifyToken rt cfg now tok of
               Inl error \<Rightarrow> Next (req\<lparr>user := IsNull\<rparr>)
             | Inr userPayload \<Rightarrow> Next (attach req tok userPayload)))"

section \<open>GoogleOAuthService\<close>

text \<open>
  What \<^verbatim>\<open>fetch\<close> gives back: it throws (with a message), or it yields a response with a
  status, a status text and a body. The body is what \<^verbatim>\<open>response.json()\<close> returns: it
  throws on text that is not JSON (\<open>NotJson\<close>), or it returns \<^verbatim>\<open>null\<close>, or a value
  whose properties \<open>JsonObj\<close> looks up (\<open>JUndefined\<close> for an absent one). The network is
  the two endpoints, as functions of the code and of the access token sent.
\<close>

datatype json_body = NotJson | JsonNull | JsonObj "string \<Rightarrow> jsval"

datatype fetch_result = FetchThrows string | Response nat string json_body

record network =
  token_endpoint :: "string \<Rightarrow> fetch_result"
  userinfo_endpoint :: "string \<Rightarrow> fetch_result"

definition response_ok :: "nat \<Rightarrow> bool" where
  "response_ok st = (200 \<le> st \<and> st \<le> 299)"

record token_set =
  ts_accessToken :: jsval
  ts_refreshToken :: jsval
  ts_expiresIn :: jsval
  ts_tokenType :: jsval
  ts_scope :: jsval

record profile = identity +
  verified_email :: jsval
  locale' :: jsval

text \<open>
  The body of the \<^verbatim>\<open>try\<close> block of \<^verbatim>\<open>exchangeCodeForTokens(code)\<close>. Reading a
  property of a \<^verbatim>\<open>null\<close> body is a \<^verbatim>\<open>TypeError\<close>. The \<^verbatim>\<open>googleError\<close> property the
  code attaches to the error is never read and is left out.
\<close>

definition exchangeCodeForTokens_try :: "network \<Rightarrow> jsval \<Rightarrow> js_error + token_set" where
  "exchangeCodeForTokens_try net c =
     (case c of
        JStr cs \<Rightarrow>
          if cs = [] then
            Inl (coded_Error ''Authorization code is required and must be a string'' ''INVALID_AUTH_CODE'' 400)
          else
            (case token_endpoint net cs of
               FetchThrows m \<Rightarrow>
                 Inl ((coded_Error ''Failed to connect to Google OAuth service'' ''OAUTH_SERVICE_UNAVAILABLE'' 503)
                        \<lparr>originalError := Some m\<rparr>)
             | Response st stText body \<Rightarrow>
                 if \<not> response_ok st then
                   (case body of
                      JsonNull \<Rightarrow> Inl (named_Error ''TypeError'' ''Cannot read properties of null'')
                    | _ \<Rightarrow>
                        let errorData = (case body of JsonObj f \<Rightarrow> f | _ \<Rightarrow> (\<lambda>k. JUndefined));
                            error = new_Error (''Google OAuth token exchange failed: '' @
                                      toString (js_or (errorData ''error_description'') (JStr stText)));
                            error1 =
                              (if st = 400 then
                                 (if errorData ''error'' = JStr ''invalid_grant'' then
                                    error\<lparr>code := Some ''INVALID_AUTH_CODE'',
                                          message := ''Authorization code is invalid or expired''\<rparr>
                                  else if errorData ''error'' = JStr ''invalid_client'' then
                                    error\<lparr>code := Some ''OAUTH_CONFIG_ERROR'',
                                          message := ''OAuth client configuration is invalid''\<rparr>
                                  else error\<lparr>code := Some ''OAUTH_REQUEST_ERROR''\<rparr>)
                               else if st = 401 then
                                 error\<lparr>code := Some ''OAUTH_UNAUTHORIZED'',
                                       message := ''OAuth client authentication failed''\<rparr>
                               else if st \<ge> 500 then
                                 error\<lparr>code := Some ''OAUTH_SERVICE_ERROR'',
                                       message := ''Google OAuth service is temporarily unavailable''\<rparr>
                               else error\<lparr>code := Some ''OAUTH_UNKNOWN_ERROR''\<rparr>)
                        in Inl (error1\<lparr>statusCode := Some st\<rparr>))
                 else
                   (case body of
                      NotJson \<Rightarrow>
                        Inl (coded_Error ''Invalid response format from Google OAuth service'' ''OAUTH_RESPONSE_ERROR'' 502)
                    | JsonNull \<Rightarrow> Inl (named_Error ''TypeError'' ''Cannot read properties of null'')
                    | JsonObj tokenData \<Rightarrow>
                        if \<not> truthy (tokenData ''access_token'') then
                          Inl (coded_Error ''Invalid token response: missing access_token'' ''OAUTH_RESPONSE_ERROR'' 502)
                        else
                          Inr \<lparr>ts_accessToken = tokenData ''access_token'',
                               ts_refreshToken = tokenData ''refresh_token'',
                               ts_expiresIn = tokenData ''expires_in'',
                               ts_tokenType = js_or (tokenData ''token_type'') (JStr ''Bearer''),
                               ts_scope = tokenData ''scope''\<rparr>))
      | _ \<Rightarrow> Inl (coded_Error ''Authorization code is required and must be a string'' ''INVALID_AUTH_CODE'' 400))"

definition exchangeCodeForTokens :: "network \<Rightarrow> jsval \<Rightarrow> js_error + token_set" where
  "exchangeCodeForTokens net c =
     (case exchangeCodeForTokens_try net c of
        Inl err \<Rightarrow> Inl (ensure_structure ''OAUTH_TOKEN_EXCHANGE_ERROR'' 500 err)
      | Inr t \<Rightarrow> Inr t)"

text \<open>\<^verbatim>\<open>GoogleOAuthService.extractDomain\<close>: exactly one \<^verbatim>\<open>@\<close> and a non-empty domain.\<close>

definition oauth_extractDomain :: "jsval \<Rightarrow> js_error + string" where
  "oauth_extractDomain e =
     (case e of
        JStr s \<Rightarrow>
          if s = [] then Inl (new_Error ''Email must be a valid string'')
          else if \<not> includes_char s CHR ''@'' then
            Inl (new_Error ''Invalid email format: missing @ symbol'')
          else
            let parts = split CHR ''@'' s in
            if length parts \<noteq> 2 \<or> parts ! 1 = [] then
              Inl (new_Error ''Invalid email format: malformed domain'')
            else Inr (parts ! 1)
      | _ \<Rightarrow> Inl (new_Error ''Email must be a valid string''))"

text \<open>
  \<^verbatim>\<open>GoogleOAuthService.validateDomain\<close>: the comparison of the lower-cased domains;
  its own \<^verbatim>\<open>catch\<close> turns an error of \<open>oauth_extractDomain\<close> into \<open>False\<close>.
\<close>

definition validateDomain :: "config \<Rightarrow> jsval \<Rightarrow> bool" where
  "validateDomain cfg e =
     (case e of
        JStr s \<Rightarrow>
          if s = [] then False
          else (case oauth_extractDomain e of
                  Inl err \<Rightarrow> False
                | Inr d \<Rightarrow> toLowerCase d = toLowerCase (auth_allowedDomain cfg))
      | _ \<Rightarrow> False)"

text \<open>The body of the \<^verbatim>\<open>try\<close> block of \<^verbatim>\<open>getUserProfile(accessToken)\<close>.\<close>

definition getUserProfile_try :: "config \<Rightarrow> network \<Rightarrow> jsval \<Rightarrow> js_error + profile" where
  "getUserProfile_try cfg net a =
     (case a of
        JStr as \<Rightarrow>
          if as = [] then
            Inl (coded_Error ''Access token is required and must be a string'' ''INVALID_ACCESS_TOKEN'' 400)
          else
            (case userinfo_endpoint net as of
               FetchThrows m \<Rightarrow>
                 Inl ((coded_Error ''Failed to connect to Google user info service'' ''GOOGLE_API_UNAVAILABLE'' 503)
                        \<lparr>originalError := Some m\<rparr>)
             | Response st stText body \<Rightarrow>
                 if \<not> response_ok st then
                   (case body of
                      JsonNull \<Rightarrow> Inl (named_Error ''TypeError'' ''Cannot read properties of null'')
                    | _ \<Rightarrow>
                        let errorData = (case body of JsonObj f \<Rightarrow> f | _ \<Rightarrow> (\<lambda>k. JUndefined));
                            error = new_Error (''Google profile retrieval failed: '' @ show_nat st @ '' - '' @
                                      toString (js_or (errorData ''error_description'') (JStr stText)));
                            error1 =
                              (if st = 401 then
                                 error\<lparr>code := Some ''INVALID_ACCESS_TOKEN'',
                                       message := ''Access token is invalid or expired''\<rparr>
                               else if st = 403 then
                                 error\<lparr>code := Some ''INSUFFICIENT_PERMISSIONS'',
                                       message := ''Access token does not have required permissions''\<rparr>
                               else if st \<ge> 500 then
                                 error\<lparr>code := Some ''GOOGLE_API_ERROR'',
                                       message := ''Google user info service is temporarily unavailable''\<rparr>
                               else error\<lparr>code := Some ''PROFILE_RETRIEVAL_ERROR''\<rparr>)
                        in Inl (error1\<lparr>statusCode := Some st\<rparr>))
                 else
                   (case body of
                      NotJson \<Rightarrow>
                        Inl (coded_Error ''Invalid response format from Google user info service'' ''GOOGLE_API_RESPONSE_ERROR'' 502)
                    | JsonNull \<Rightarrow> Inl (named_Error ''TypeError'' ''Cannot read properties of null'')
                    | JsonObj profileData \<Rightarrow>
                        if \<not> truthy (profileData ''id'') \<or> \<not> truthy (profileData ''email'') then
                          Inl (coded_Error ''Invalid profile response: missing required fields (id, email)'' ''INCOMPLETE_PROFILE_DATA'' 502)
                        else if \<not> validateDomain cfg (profileData ''email'') then
                          (case oauth_extractDomain (profileData ''email'') of
                             Inl err \<Rightarrow> Inl err
                           | Inr d \<Rightarrow>
                               Inl ((coded_Error (''Access restricted to @'' @ auth_allowedDomain cfg @
                                                   '' accounts. Found: @'' @ d) ''DOMAIN_RESTRICTED'' 403)
                                      \<lparr>userDomain := Some d,
                                        allowedDomain := Some (auth_allowedDomain cfg)\<rparr>))
                        else
                          Inr \<lparr>id' = profileData ''id'', email = profileData ''email'',
                               name = js_or (profileData ''name'') (JStr []),
                               picture = js_or (profileData ''picture'') (JStr []),
                               verified_email = js_or (profileData ''verified_email'') (JBool False),
                               locale' = js_or (profileData ''locale'') (JStr ''en'')\<rparr>))
      | _ \<Rightarrow> Inl (coded_Error ''Access token is required and must be a string'' ''INVALID_ACCESS_TOKEN'' 400))"

definition getUserProfile :: "config \<Rightarrow> network \<Rightarrow> jsval \<Rightarrow> js_error + profile" where
  "getUserProfile cfg net a =
     (case getUserProfile_try cfg net a of
        Inl err \<Rightarrow> Inl (ensure_structure ''PROFILE_RETRIEVAL_ERROR'' 500 err)
      | Inr p \<Rightarrow> Inr p)"

text \<open>The catch block of \<^verbatim>\<open>completeOAuthFlow\<close>.\<close>

definition flow_catch :: "js_error \<Rightarrow> js_error" where
  "flow_catch err =
     (if \<not> no_code err \<and> \<not> no_statusCode err then err
      else (coded_Error (''OAuth flow completion failed: '' @ message err) ''OAUTH_FLOW_ERROR'' 500)
             \<lparr>originalError := Some (message err)\<rparr>)"

record oauth_tokens =
  t_accessToken :: jsval
  t_refreshToken :: jsval
  t_expiresIn :: jsval
  t_tokenType :: jsval

record oauth_result =
  oauth_user :: profile
  tokens :: oauth_tokens

definition completeOAuthFlow :: "config \<Rightarrow> network \<Rightarrow> jsval \<Rightarrow> js_error + oauth_result" where
  "completeOAuthFlow cfg net c =
     (case exchangeCodeForTokens net c of
        Inl err \<Rightarrow> Inl (flow_catch err)
      | Inr tokenData \<Rightarrow>
          (case getUserProfile cfg net (ts_accessToken tokenData) of
             Inl err \<Rightarrow> Inl (flow_catch err)
           | Inr userProfile \<Rightarrow>
               Inr \<lparr>oauth_user = userProfile,
                    tokens = \<lparr>t_accessToken = ts_accessToken tokenData,
                              t_refreshToken = ts_refreshToken tokenData,
                              t_expiresIn = ts_expiresIn tokenData,
                              t_tokenType = ts_tokenType tokenData\<rparr>\<rparr>))"

section \<open>AuthController\<close>

text \<open>
  The property names an object literal inherits from \<^verbatim>\<open>Object.prototype\<close>, with the
  string each inherited value converts to.
\<close>

definition inherited_property :: "string \<Rightarrow> jsval" where
  "inherited_property k =
     (if k = ''__proto__'' then JObject ''[object Object]''
      else if k = ''constructor'' then JObject ''function Object() { [native code] }''
      else if k \<in> set [''toString'', ''toLocaleString'', ''valueOf'', ''hasOwnProperty'',
                        ''isPrototypeOf'', ''propertyIsEnumerable'', ''__defineGetter__'',
                        ''__defineSetter__'', ''__lookupGetter__'', ''__lookupSetter__'']
      then JObject (''function '' @ k @ ''() { [native code] }'')
      else JUndefined)"

definition errorMessages :: "(string \<times> string) list" where
  "errorMessages =
     [(''access_denied'', ''You cancelled the sign-in process. Please try again to access the application.''),
      (''invalid_request'', ''Invalid authentication request. Please try signing in again.''),
      (''unauthorized_client'', ''Authentication service configuration error. Please contact support.''),
      (''unsupported_response_type'', ''Authentication service configuration error. Please contact support.''),
      (''invalid_scope'', ''Authentication service configuration error. Please contact support.''),
      (''server_error'', ''Google authentication service is temporarily unavailable. Please try again.''),
      (''temporarily_unavailable'', ''Google authentication service is temporarily unavailable. Please try again.'')]"

text \<open>
  \<^verbatim>\<open>getOAuthErrorMessage(error, errorDescription)\<close>:
  \<^verbatim>\<open>errorMessages[error] || errorDescription || 'Authentication failed. Please try again.'\<close>.
\<close>

definition getOAuthErrorMessage :: "jsval \<Rightarrow> jsval \<Rightarrow> jsval" where
  "getOAuthErrorMessage error errorDescription =
     js_or (js_or (case map_of errorMessages (toString error) of
                     Some m \<Rightarrow> JStr m
                   | None \<Rightarrow> inherited_property (toString error))
                  errorDescription)
           (JStr ''Authentication failed. Please try again.'')"

record query =
  q_code :: jsval
  q_error :: jsval
  q_error_description :: jsval
  q_state :: jsval

datatype http_result = Redirect string | Json response

text \<open>The body of the \<^verbatim>\<open>try\<close> block of \<^verbatim>\<open>handleOAuthCallback\<close>.\<close>

definition handleOAuthCallback_try ::
  "runtime \<Rightarrow> config \<Rightarrow> network \<Rightarrow> int \<Rightarrow> query \<Rightarrow> js_error + http_result" where
  "handleOAuthCallback_try rt cfg net now q =
     (if truthy (q_error q) then
        Inr (Redirect (server_frontendUrl cfg @ ''/?error='' @
               encodeURIComponent rt (toString (getOAuthErrorMessage (q_error q) (q_error_description q)))))
      else if \<not> truthy (q_code q) then
        Inr (Redirect (server_frontendUrl cfg @ ''/?error='' @
               encodeURIComponent rt ''Authorization code is required''))
      else
        (case completeOAuthFlow cfg net (q_code q) of
           Inl err \<Rightarrow> Inl err
         | Inr oauthResult \<Rightarrow>
             (case generateToken rt cfg now (Some (oauth_user oauthResult)) JNull of
                Inl err \<Rightarrow> Inl err
              | Inr jwtToken \<Rightarrow>
                  (case extractDomain (email (oauth_user oauthResult)) of
                     Inl err \<Rightarrow> Inl err
                   | Inr d \<Rightarrow>
                       Inr (Redirect (server_frontendUrl cfg @ ''/auth/callback?token='' @
                              encodeURIComponent rt jwtToken @ ''&user='' @
                              encodeURIComponent rt (JSON_stringify rt
                                \<lparr>id' = id' (oauth_user oauthResult),
                                 email = email (oauth_user oauthResult),
                                 name = name (oauth_user oauthResult),
                                 picture = picture (oauth_user oauthResult),
                                 domain = JStr d\<rparr>)))))))"

text \<open>
  \<^verbatim>\<open>handleOAuthCallback\<close> with its catch block, which redirects with
  \<^verbatim>\<open>error.message || 'Authentication failed'\<close>.
\<close>

definition handleOAuthCallback ::
  "runtime \<Rightarrow> config \<Rightarrow> network \<Rightarrow> int \<Rightarrow> query \<Rightarrow> http_result" where
  "handleOAuthCallback rt cfg net now q =
     (case handleOAuthCallback_try rt cfg net now q of
        Inr r \<Rightarrow> r
      | Inl error \<Rightarrow>
          Redirect (server_frontendUrl cfg @ ''/?error='' @
            encodeURIComponent rt (if message error = [] then ''Authentication failed'' else message error)))"

section \<open>An example runtime, configuration and network\<close>

text \<open>
  A runtime whose token strings are given by a finite table; a string outside the table
  is malformed. It knows the time span \<^verbatim>\<open>24h\<close> and leaves URI components as they are.
\<close>

definition table_runtime :: "(string \<times> jwt) list \<Rightarrow> runtime" where
  "table_runtime tbl =
     \<lparr>jwt_encode = (\<lambda>j. case find (\<lambda>(s, j'). j' = j) tbl of Some (s, j') \<Rightarrow> s | None \<Rightarrow> ''?''),
      jwt_decode = (\<lambda>s. case map_of tbl s of
                          Some j \<Rightarrow> Inr j
                        | None \<Rightarrow> Inl (named_Error ''JsonWebTokenError'' ''jwt malformed'')),
      ms = (\<lambda>s. if s = ''24h'' then Some 86400000 else None),
      encodeURIComponent = (\<lambda>s. s),
      JSON_stringify = (\<lambda>u. toString (email u))\<rparr>"

definition example_config :: config where
  "example_config =
     \<lparr>jwt_secret = ''0123456789abcdef0123456789abcdef'', jwt_expiresIn = ''24h'',
      auth_allowedDomain = ''wareongo.com'', server_frontendUrl = ''http://localhost:3000''\<rparr>"

definition example_payload :: domained where
  "example_payload =
     \<lparr>id' = JStr ''1'', email = JStr ''a@WareOnGo.com'', name = JStr ''A'',
      picture = JUndefined, domain = JStr ''evil.example''\<rparr>"

definition example_claims :: "string \<Rightarrow> int \<Rightarrow> claims" where
  "example_claims e t =
     \<lparr>id' = JStr ''1'', email = JStr e, name = JStr ''A'', picture = JUndefined,
      domain = JStr ''WareOnGo.com'', iss = JStr ''warehouse-api'',
      aud = JStr ''warehouse-frontend'', iat = JNum t, exp = JNum (t + 86400),
      nbf = JUndefined\<rparr>"

definition example_jwt :: "string \<Rightarrow> int \<Rightarrow> jwt" where
  "example_jwt e t =
     \<lparr>alg = ''HS256'', key = ''0123456789abcdef0123456789abcdef'', payload = example_claims e t\<rparr>"

definition example_runtime :: runtime where
  "example_runtime =
     table_runtime [(''tokenA'', example_jwt ''a@WareOnGo.com'' 1000),
                    (''tokenB'', example_jwt ''a@WareOnGo.com'' 2000),
                    (''tokenC'', example_jwt ''nobody'' 1000),
                    (''tokenP'', (example_jwt ''a@WareOnGo.com'' 1000)
                                   \<lparr>payload := (example_claims ''a@WareOnGo.com'' 1000)
                                                 \<lparr>picture := JStr []\<rparr>\<rparr>)]"

definition obj :: "(string \<times> jsval) list \<Rightarrow> string \<Rightarrow> jsval" where
  "obj kvs k = (case map_of kvs k of Some v \<Rightarrow> v | None \<Rightarrow> JUndefined)"

definition example_network :: network where
  "example_network =
     \<lparr>token_endpoint = (\<lambda>c.
        if c = ''code-a'' then Response 200 ''OK'' (JsonObj (obj [(''access_token'', JStr ''at-a'')]))
        else if c = ''code-b'' then Response 200 ''OK'' (JsonObj (obj [(''access_token'', JStr ''at-b'')]))
        else Response 400 ''Bad Request''
               (JsonObj (obj [(''error'', JStr ''redirect_uri_mismatch''),
                              (''error_description'', JStr ''redirect_uri http://10.0.0.7:3001/cb is not registered'')]))),
      userinfo_endpoint = (\<lambda>a.
        if a = ''at-a'' then
          Response 200 ''OK'' (JsonObj (obj [(''id'', JStr ''1''), (''email'', JStr ''a@WareOnGo.com''),
                                             (''name'', JStr ''A'')]))
        else if a = ''at-b'' then
          Response 200 ''OK'' (JsonObj (obj [(''id'', JStr ''2''), (''email'', JStr ''a@other.com'')]))
        else Response 401 ''Unauthorized'' NotJson)\<rparr>"

section \<open>Error objects and string splitting\<close>

lemma coded_Error_structured:
  "c \<noteq> [] \<Longrightarrow> s \<noteq> 0 \<Longrightarrow> \<not> no_code (coded_Error m c s) \<and> \<not> no_statusCode (coded_Error m c s)"
  by (simp add: coded_Error_def new_Error_def no_code_def no_statusCode_def)

lemma ensure_structure_structured:
  "c \<noteq> [] \<Longrightarrow> s \<noteq> 0 \<Longrightarrow>
   \<not> no_code (ensure_structure c s e) \<and> \<not> no_statusCode (ensure_structure c s e)"
  by (auto simp: ensure_structure_def Let_def no_code_def no_statusCode_def split: option.splits)

lemma ensure_structure_id:
  "\<not> no_code e \<Longrightarrow> \<not> no_statusCode e \<Longrightarrow> ensure_structure c s e = e"
  by (simp add: ensure_structure_def Let_def)

lemma ensure_structure_coded [simp]:
  "c \<noteq> [] \<Longrightarrow> s \<noteq> 0 \<Longrightarrow> ensure_structure c' s' ((coded_Error m c s)\<lparr>originalError := x\<rparr>) = (coded_Error m c s)\<lparr>originalError := x\<rparr>"
  "c \<noteq> [] \<Longrightarrow> s \<noteq> 0 \<Longrightarrow> ensure_structure c' s' (coded_Error m c s) = coded_Error m c s"
  by (simp_all add: ensure_structure_def Let_def coded_Error_def new_Error_def no_code_def no_statusCode_def)

lemma verifyToken_error_structured:
  "verifyToken rt cfg now tok = Inl e \<Longrightarrow> \<not> no_code e \<and> \<not> no_statusCode e"
  by (auto simp: verifyToken_def ensure_structure_structured split: sum.splits)

lemma generateToken_error_structured:
  "generateToken rt cfg now arg x = Inl e \<Longrightarrow> \<not> no_code e \<and> \<not> no_statusCode e"
  by (auto simp: generateToken_def ensure_structure_structured split: sum.splits)

lemma refresh_catch_structured:
  "\<not> no_code e \<Longrightarrow> \<not> no_statusCode e \<Longrightarrow> refresh_catch e = e"
  by (simp add: refresh_catch_def)

lemma verifyToken_empty:
  "verifyToken rt cfg now [] = Inl (coded_Error ''Token must be a valid string'' ''INVALID_TOKEN_FORMAT'' 400)"
  by (simp add: verifyToken_def verifyToken_try_def)

lemma split_not_Nil [simp]: "split c s \<noteq> []"
  by (induction s) (auto split: list.splits)





section \<open>What issuing and verifying compute\<close>

lemma validateEmailDomain_True:
  assumes "validateEmailDomain cfg e = Inr True"
  shows "\<exists>s. e = JStr s \<and> s \<noteq> [] \<and> CHR ''@'' \<in> set s \<and>
             extractDomain e = Inr (split CHR ''@'' s ! 1) \<and>
             toLowerCase (split CHR ''@'' s ! 1) = toLowerCase (auth_allowedDomain cfg)"
  using assms
  by (cases e) (auto simp: validateEmailDomain_def includes_char_def split: if_splits sum.splits)

lemma validateEmailDomain_truthy:
  "validateEmailDomain cfg e = Inr True \<Longrightarrow> truthy e"
  by (drule validateEmailDomain_True) auto

lemma validateEmailDomain_True_iff:
  "validateEmailDomain cfg (JStr s) = Inr True \<longleftrightarrow>
     CHR ''@'' \<in> set s \<and>
     toLowerCase (split CHR ''@'' s ! 1) = toLowerCase (auth_allowedDomain cfg)"
  by (auto simp: validateEmailDomain_def includes_char_def)

lemma generateToken_success:
  assumes "truthy (id' p)" and "validateEmailDomain cfg (email p) = Inr True"
    and "jwt_secret cfg \<noteq> []"
    and "timespan (ms rt) (js_or x (JStr (jwt_expiresIn cfg))) t = Some ex"
    and "extractDomain (email p) = Inr d"
  shows "generateToken rt cfg t (Some p) x = Inr (jwt_encode rt (issued cfg p d t ex))"
  using assms validateEmailDomain_truthy[OF assms(2)]
  by (simp add: generateToken_def generateToken_try_def jwt_sign_def issued_def)

lemma generateToken_inversion:
  assumes "generateToken rt cfg t (Some p) x = Inr tok"
  shows "truthy (id' p) \<and> validateEmailDomain cfg (email p) = Inr True \<and> jwt_secret cfg \<noteq> [] \<and>
         (\<exists>ex d. timespan (ms rt) (js_or x (JStr (jwt_expiresIn cfg))) t = Some ex \<and>
                  extractDomain (email p) = Inr d \<and> tok = jwt_encode rt (issued cfg p d t ex))"
  using assms
  by (auto simp: generateToken_def generateToken_try_def jwt_sign_def issued_def
           split: sum.splits if_splits bool.splits option.splits)

lemma verifyToken_issued:
  assumes lib: "library_decodes rt tok" and tok: "tok = jwt_encode rt (issued cfg p d t ex)"
    and "truthy (id' p)" and "validateEmailDomain cfg (email p) = Inr True"
    and "jwt_secret cfg \<noteq> []" and "now < ex"
  shows "verifyToken rt cfg now tok = Inr (payload (issued cfg p d t ex))"
proof -
  have dec: "jwt_decode rt tok = Inr (issued cfg p d t ex)"
    using lib tok by (simp add: library_decodes_def)
  have ne: "tok \<noteq> []" using lib by (auto simp: library_decodes_def trim_def)
  have bare: "\<not> startsWith tok ''Bearer ''" "trim tok \<noteq> []"
    using lib by (simp_all add: library_decodes_def)
  have ver: "jwt_verify rt tok (jwt_secret cfg) ''warehouse-frontend'' ''warehouse-api'' now
               = Inr (payload (issued cfg p d t ex))"
    using dec assms(5,6) by (simp add: jwt_verify_def issued_def)
  show ?thesis
    using ne bare ver assms(3,4) validateEmailDomain_truthy[OF assms(4)]
    by (simp add: verifyToken_def verifyToken_try_def Let_def issued_def)
qed

lemma verifyToken_inversion:
  assumes "verifyToken rt cfg now tok = Inr d"
  shows "tok \<noteq> [] \<and> truthy (id' d) \<and> validateEmailDomain cfg (email d) = Inr True \<and>
         jwt_secret cfg \<noteq> [] \<and>
         (\<exists>j. jwt_decode rt (if startsWith tok ''Bearer '' then slice tok 7 else tok) = Inr j \<and>
               alg j = ''HS256'' \<and> key j = jwt_secret cfg \<and> payload j = d)"
  using assms
  by (auto simp: verifyToken_def verifyToken_try_def Let_def jwt_verify_def
           split: sum.splits if_splits bool.splits)

lemma timespan_shift:
  "timespan parse v t = Some ex \<Longrightarrow> timespan parse v t' = Some (ex + (t' - t))"
  by (cases v) (auto split: if_splits option.splits)

lemma generateToken_other_domain:
  assumes "truthy (id' p)" and "email p = JStr s" and "CHR ''@'' \<in> set s"
    and "toLowerCase (split CHR ''@'' s ! 1) \<noteq> toLowerCase (auth_allowedDomain cfg)"
  shows "generateToken rt cfg now (Some p) x
           = Inl (coded_Error ''Invalid email domain for token generation'' ''INVALID_DOMAIN'' 403)"
  using assms
  by (auto simp: generateToken_def generateToken_try_def validateEmailDomain_def includes_char_def)

lemma validateDomain_iff:
  "validateDomain cfg e =
     (\<exists>d. oauth_extractDomain e = Inr d \<and> toLowerCase d = toLowerCase (auth_allowedDomain cfg))"
  by (cases e) (auto simp: validateDomain_def oauth_extractDomain_def Let_def split: sum.splits if_splits)



lemma getUserProfile_no_domain:
  assumes "a \<noteq> []"
    and "userinfo_endpoint net a = Response st stText (JsonObj profileData)"
    and "response_ok st"
    and "truthy (profileData ''id'')" and "truthy (profileData ''email'')"
    and "oauth_extractDomain (profileData ''email'') = Inl err"
  shows "getUserProfile cfg net (JStr a) = Inl (ensure_structure ''PROFILE_RETRIEVAL_ERROR'' 500 err)"
proof -
  have "\<not> validateDomain cfg (profileData ''email'')"
    using assms(6) by (simp add: validateDomain_iff)
  then show ?thesis
    using assms by (simp add: getUserProfile_def getUserProfile_try_def)
qed

lemma verifyToken_library_error:
  assumes "tok \<noteq> []" and "\<not> startsWith tok ''Bearer ''" and "trim tok \<noteq> []"
    and "jwt_verify rt tok (jwt_secret cfg) ''warehouse-frontend'' ''warehouse-api'' now = Inl jwtError"
  shows "\<exists>e. verifyToken rt cfg now tok = Inl e \<and> code e = Some (getJWTErrorCode jwtError) \<and>
             statusCode e = Some (if getJWTErrorCode jwtError = ''TOKEN_EXPIRED'' then 401 else 400) \<and>
             originalError e = Some (message jwtError)"
  using assms
  by (auto simp: verifyToken_def verifyToken_try_def getJWTErrorCode_def ensure_structure_def
        coded_Error_def new_Error_def no_code_def no_statusCode_def)

lemma errorMessages_nonempty: "map_of errorMessages k = Some m \<Longrightarrow> m \<noteq> []"
  by (auto simp: errorMessages_def split: if_splits)

lemma getOAuthErrorMessage_known:
  "map_of errorMessages (toString error) = Some m \<Longrightarrow>
   getOAuthErrorMessage error errorDescription = JStr m"
  by (simp add: getOAuthErrorMessage_def js_or_def errorMessages_nonempty)

lemma getOAuthErrorMessage_unknown:
  "map_of errorMessages (toString error) = None \<Longrightarrow>
   inherited_property (toString error) = JUndefined \<Longrightarrow>
   getOAuthErrorMessage error errorDescription =
     js_or errorDescription (JStr ''Authentication failed. Please try again.'')"
  by (simp add: getOAuthErrorMessage_def js_or_def)

lemma generateToken_extractDomain:
  "generateToken rt cfg t (Some p) x = Inr tok \<Longrightarrow> \<exists>d. extractDomain (email p) = Inr d"
  using generateToken_inversion by blast

section \<open>The example instance\<close>

lemma example_decode:
  "jwt_decode example_runtime ''tokenA'' = Inr (example_jwt ''a@WareOnGo.com'' 1000)"
  "jwt_decode example_runtime ''tokenB'' = Inr (example_jwt ''a@WareOnGo.com'' 2000)"
  "jwt_decode example_runtime ''tokenC'' = Inr (example_jwt ''nobody'' 1000)"
  by (simp_all add: example_runtime_def table_runtime_def)

lemma example_encode:
  "jwt_encode example_runtime j = ''tokenA'' \<longleftrightarrow> j = example_jwt ''a@WareOnGo.com'' 1000"
  "jwt_encode example_runtime j = ''tokenB'' \<longleftrightarrow> j = example_jwt ''a@WareOnGo.com'' 2000"
  by (auto simp: example_runtime_def table_runtime_def example_jwt_def example_claims_def)

lemma example_library_decodes:
  "library_decodes example_runtime ''tokenA''"
  "library_decodes example_runtime ''tokenB''"
  by (simp_all add: library_decodes_def example_encode example_decode startsWith_def trim_def is_space_def)

section \<open>Token issue and verification\<close>

text \<open>
  C1. A payload with an id whose email is a string with an \<^verbatim>\<open>@\<close> and the allowed
  domain (compared without case) is issued a token, given a secret and a usable time to
  live; and when the library decodes that token, verifying it at any second before its
  expiry succeeds and returns claims with the payload's id, email, name and picture and
  with the domain taken from the email.
\<close>

theorem verify_issue_roundtrip:
  assumes "truthy (id' p)"
    and "email p = JStr s" and "CHR ''@'' \<in> set s"
    and "toLowerCase (split CHR ''@'' s ! 1) = toLowerCase (auth_allowedDomain cfg)"
    and "jwt_secret cfg \<noteq> []"
    and "timespan (ms rt) (js_or x (JStr (jwt_expiresIn cfg))) t0 = Some ex"
    and "t1 < ex"
  shows "\<exists>tok. generateToken rt cfg t0 (Some p) x = Inr tok \<and>
           (library_decodes rt tok \<longrightarrow>
              (\<exists>d. verifyToken rt cfg t1 tok = Inr d \<and> id' d = id' p \<and> email d = email p \<and>
                    name d = name p \<and> picture d = picture p \<and>
                    domain d = JStr (split CHR ''@'' s ! 1)))"
proof -
  let ?d = "split CHR ''@'' s ! 1"
  let ?tok = "jwt_encode rt (issued cfg p ?d t0 ex)"
  have val: "validateEmailDomain cfg (email p) = Inr True"
    using assms(2-4) by (simp add: validateEmailDomain_True_iff)
  have dom: "extractDomain (email p) = Inr ?d"
    using assms(2,3) by (auto simp: includes_char_def)
  have gen: "generateToken rt cfg t0 (Some p) x = Inr ?tok"
    by (rule generateToken_success[OF assms(1) val assms(5,6) dom])
  have ver: "verifyToken rt cfg t1 ?tok = Inr (payload (issued cfg p ?d t0 ex))"
    if "library_decodes rt ?tok"
    by (rule verifyToken_issued[OF that refl assms(1) val assms(5,7)])
  show ?thesis
    using gen ver by (auto simp: issued_def)
qed

text \<open>
  An instance of C1: the example payload is issued \<open>tokenA\<close> at second 1000, and
  verifying it at second 1500 returns its identity.
\<close>

theorem verify_issue_roundtrip_witness:
  "generateToken example_runtime example_config 1000 (Some example_payload) JNull = Inr ''tokenA'' \<and>
   (\<exists>d. verifyToken example_runtime example_config 1500 ''tokenA'' = Inr d \<and>
        id' d = JStr ''1'' \<and> email d = JStr ''a@WareOnGo.com'' \<and> name d = JStr ''A'' \<and>
        picture d = JUndefined \<and> domain d = JStr ''WareOnGo.com'')"
proof -
  have h1: "truthy (id' example_payload)" by (simp add: example_payload_def)
  have h2: "email example_payload = JStr ''a@WareOnGo.com''" by (simp add: example_payload_def)
  have h3: "CHR ''@'' \<in> set ''a@WareOnGo.com''" by simp
  have h4: "toLowerCase (split CHR ''@'' ''a@WareOnGo.com'' ! 1)
              = toLowerCase (auth_allowedDomain example_config)" by code_simp
  have h5: "jwt_secret example_config \<noteq> []" by (simp add: example_config_def)
  have h6: "timespan (ms example_runtime) (js_or JNull (JStr (jwt_expiresIn example_config))) 1000
              = Some 87400" by code_simp
  have h7: "(1500::int) < 87400" by simp
  have g: "generateToken example_runtime example_config 1000 (Some example_payload) JNull
             = Inr ''tokenA''" by code_simp
  have d: "split CHR ''@'' ''a@WareOnGo.com'' ! 1 = ''WareOnGo.com''" by code_simp
  from verify_issue_roundtrip[OF h1 h2 h3 h4 h5 h6 h7] g d example_library_decodes(1)
  show ?thesis by (auto simp: example_payload_def)
qed

text \<open>
  C2, at an email without \<^verbatim>\<open>@\<close>: \<open>extractDomain\<close> throws inside
  \<open>validateEmailDomain\<close>, the error carries no code, and the catch block of
  \<^verbatim>\<open>generateToken\<close> labels it \<^verbatim>\<open>TOKEN_GENERATION_ERROR\<close> with status 500 instead of
  \<^verbatim>\<open>INVALID_DOMAIN\<close> with status 403. The lemma \<open>generateToken_other_domain\<close> above is
  the case the code does handle: an email with an \<^verbatim>\<open>@\<close> and another domain.
\<close>

theorem generateToken_malformed_email:
  "generateToken rt cfg now
     (Some \<lparr>id' = JStr ''2'', email = JStr ''nobody'', name = JUndefined, picture = JUndefined\<rparr>) x
   = Inl \<lparr>err_name = ''Error'', message = ''Invalid email format'',
          code = Some ''TOKEN_GENERATION_ERROR'', statusCode = Some 500,
          originalError = None, userDomain = None, allowedDomain = None\<rparr>"
  by (simp add: generateToken_def generateToken_try_def validateEmailDomain_def includes_char_def
        ensure_structure_def new_Error_def no_code_def no_statusCode_def)



text \<open>
  C4, as the code has it. A token that \<^verbatim>\<open>verifyToken\<close> rejects makes
  \<^verbatim>\<open>refreshToken\<close> fail with the very same error. A token it accepts, with a usable
  configured time to live, is replaced by the library's token for the same id, email,
  name and picture, the domain taken again from the email, issued at the refresh second
  and expiring one configured time to live later. For a token that \<^verbatim>\<open>generateToken\<close>
  issued with the configured time to live at second \<open>t0\<close> and that the library
  decodes, the new expiry is the old one plus the seconds elapsed since \<open>t0\<close>: later
  when the refresh comes in a later clock second, the same within the second of issue.
\<close>

theorem refreshToken_behaviour:
  "(\<forall>e. verifyToken rt cfg now tok = Inl e \<longrightarrow> refreshToken rt cfg now tok = Inl e) \<and>
   (\<forall>d ex. verifyToken rt cfg now tok = Inr d \<and>
            timespan (ms rt) (JStr (jwt_expiresIn cfg)) now = Some ex \<longrightarrow>
       (\<exists>dom. extractDomain (email d) = Inr dom \<and>
               toLowerCase dom = toLowerCase (auth_allowedDomain cfg) \<and>
               refreshToken rt cfg now tok = Inr (jwt_encode rt (issued cfg d dom now ex)))) \<and>
   (\<forall>p t0 ex0. generateToken rt cfg t0 (Some p) JNull = Inr tok \<and> library_decodes rt tok \<and>
                now < ex0 \<and> timespan (ms rt) (JStr (jwt_expiresIn cfg)) t0 = Some ex0 \<longrightarrow>
       (\<exists>dom ex1. verifyToken rt cfg now tok = Inr (payload (issued cfg p dom t0 ex0)) \<and>
                   refreshToken rt cfg now tok = Inr (jwt_encode rt (issued cfg p dom now ex1)) \<and>
                   ex1 = ex0 + (now - t0) \<and> (ex0 < ex1) = (t0 < now)))"
proof (intro conjI allI impI)
  fix e assume "verifyToken rt cfg now tok = Inl e"
  then show "refreshToken rt cfg now tok = Inl e"
    using verifyToken_error_structured[of rt cfg now tok e]
    by (simp add: refreshToken_def refresh_catch_structured)
next
  fix d ex
  assume a: "verifyToken rt cfg now tok = Inr d \<and>
             timespan (ms rt) (JStr (jwt_expiresIn cfg)) now = Some ex"
  from verifyToken_inversion[of rt cfg now tok d] a have
    id: "truthy (id' d)" and val: "validateEmailDomain cfg (email d) = Inr True"
    and sec: "jwt_secret cfg \<noteq> []" by auto
  from validateEmailDomain_True[OF val] obtain dom where
    dom: "extractDomain (email d) = Inr dom"
    and low: "toLowerCase dom = toLowerCase (auth_allowedDomain cfg)" by blast
  let ?u = "\<lparr>id' = id' d, email = email d, name = name d, picture = picture d,
             domain = domain d\<rparr>"
  have "generateToken rt cfg now (Some ?u) JNull = Inr (jwt_encode rt (issued cfg ?u dom now ex))"
    using generateToken_success[of ?u cfg rt JNull now ex dom] id val sec dom a
    by (simp add: js_or_def)
  then have "refreshToken rt cfg now tok = Inr (jwt_encode rt (issued cfg d dom now ex))"
    using a by (simp add: refreshToken_def issued_def)
  then show "\<exists>dom. extractDomain (email d) = Inr dom \<and>
               toLowerCase dom = toLowerCase (auth_allowedDomain cfg) \<and>
               refreshToken rt cfg now tok = Inr (jwt_encode rt (issued cfg d dom now ex))"
    using dom low by blast
next
  fix p :: "'b identity_scheme" and t0 ex0
  assume a: "generateToken rt cfg t0 (Some p) JNull = Inr tok \<and> library_decodes rt tok \<and>
             now < ex0 \<and> timespan (ms rt) (JStr (jwt_expiresIn cfg)) t0 = Some ex0"
  from generateToken_inversion[of rt cfg t0 p JNull tok] a obtain dom where
    id: "truthy (id' p)" and val: "validateEmailDomain cfg (email p) = Inr True"
    and sec: "jwt_secret cfg \<noteq> []" and dom: "extractDomain (email p) = Inr dom"
    and tok: "tok = jwt_encode rt (issued cfg p dom t0 ex0)"
    by (auto simp: js_or_def)
  have ver: "verifyToken rt cfg now tok = Inr (payload (issued cfg p dom t0 ex0))"
    using verifyToken_issued[OF _ tok id val sec] a by simp
  let ?u = "\<lparr>id' = id' p, email = email p, name = name p, picture = picture p,
             domain = JStr dom\<rparr>"
  have ts: "timespan (ms rt) (js_or JNull (JStr (jwt_expiresIn cfg))) now = Some (ex0 + (now - t0))"
    using a timespan_shift[of "ms rt" "JStr (jwt_expiresIn cfg)" t0 ex0 now] by (simp add: js_or_def)
  have "generateToken rt cfg now (Some ?u) JNull
          = Inr (jwt_encode rt (issued cfg ?u dom now (ex0 + (now - t0))))"
    using generateToken_success[of ?u cfg rt JNull now "ex0 + (now - t0)" dom] id val sec dom ts
    by simp
  then have "refreshToken rt cfg now tok = Inr (jwt_encode rt (issued cfg p dom now (ex0 + (now - t0))))"
    using ver by (simp add: refreshToken_def issued_def)
  then show "\<exists>dom ex1. verifyToken rt cfg now tok = Inr (payload (issued cfg p dom t0 ex0)) \<and>
                   refreshToken rt cfg now tok = Inr (jwt_encode rt (issued cfg p dom now ex1)) \<and>
                   ex1 = ex0 + (now - t0) \<and> (ex0 < ex1) = (t0 < now)"
    using ver by (intro exI[of _ dom] exI[of _ "ex0 + (now - t0)"]) simp
qed

text \<open>
  An instance of C4: \<open>tokenA\<close>, issued at second 1000, fails to refresh at second
  90000 with the error of its verification, and refreshed at second 2000 gives a token
  expiring at 88400 instead of 87400.
\<close>

theorem refreshToken_behaviour_witness:
  "refreshToken example_runtime example_config 90000 ''tokenA'' =
     Inl \<lparr>err_name = ''Error'', message = ''Your session has expired. Please sign in again.'',
          code = Some ''TOKEN_EXPIRED'', statusCode = Some 401,
          originalError = Some ''jwt expired'', userDomain = None, allowedDomain = None\<rparr> \<and>
   (\<exists>dom. verifyToken example_runtime example_config 2000 ''tokenA''
             = Inr (payload (issued example_config example_payload dom 1000 87400)) \<and>
          refreshToken example_runtime example_config 2000 ''tokenA''
             = Inr (jwt_encode example_runtime (issued example_config example_payload dom 2000 88400)))"
proof -
  have v: "verifyToken example_runtime example_config 90000 ''tokenA'' =
     Inl \<lparr>err_name = ''Error'', message = ''Your session has expired. Please sign in again.'',
          code = Some ''TOKEN_EXPIRED'', statusCode = Some 401,
          originalError = Some ''jwt expired'', userDomain = None, allowedDomain = None\<rparr>"
    by code_simp
  have g: "generateToken example_runtime example_config 1000 (Some example_payload) JNull
             = Inr ''tokenA''" by code_simp
  have t: "timespan (ms example_runtime) (JStr (jwt_expiresIn example_config)) 1000 = Some 87400"
    by code_simp
  have l: "(2000::int) < 87400" by simp
  from refreshToken_behaviour[of example_runtime example_config 90000 "''tokenA''"] v
  have 1: "refreshToken example_runtime example_config 90000 ''tokenA'' =
     Inl \<lparr>err_name = ''Error'', message = ''Your session has expired. Please sign in again.'',
          code = Some ''TOKEN_EXPIRED'', statusCode = Some 401,
          originalError = Some ''jwt expired'', userDomain = None, allowedDomain = None\<rparr>"
    by blast
  from refreshToken_behaviour[of example_runtime example_config 2000 "''tokenA''"]
    g example_library_decodes(1) l t
  have 2: "\<exists>dom ex1. verifyToken example_runtime example_config 2000 ''tokenA''
             = Inr (payload (issued example_config example_payload dom 1000 87400)) \<and>
          refreshToken example_runtime example_config 2000 ''tokenA''
             = Inr (jwt_encode example_runtime (issued example_config example_payload dom 2000 ex1)) \<and>
          ex1 = 87400 + (2000 - 1000)"
    by blast
  from 1 2 show ?thesis by auto
qed

text \<open>
  Against C4 as stated: refreshed within the second of its issue, \<open>tokenA\<close> is
  replaced by \<open>tokenA\<close> itself, so the expiry is the same and not strictly later.
\<close>

theorem refreshToken_same_second_counterexample:
  "generateToken example_runtime example_config 1000 (Some example_payload) JNull = Inr ''tokenA'' \<and>
   verifyToken example_runtime example_config 1000 ''tokenA''
     = Inr (example_claims ''a@WareOnGo.com'' 1000) \<and>
   exp (example_claims ''a@WareOnGo.com'' 1000) = JNum 87400 \<and>
   refreshToken example_runtime example_config 1000 ''tokenA'' = Inr ''tokenA''"
  by code_simp

text \<open>
  C8, as the code has it. A non-empty token that does not itself begin with the scheme
  prefix verifies the same with and without the prefix; a non-empty input that is blank
  once the prefix is removed is rejected with \<^verbatim>\<open>EMPTY_TOKEN\<close>; the empty string is
  rejected by the first guard with \<^verbatim>\<open>INVALID_TOKEN_FORMAT\<close>.
\<close>

theorem verifyToken_prefix_and_empty:
  "(tok \<noteq> [] \<and> \<not> startsWith tok ''Bearer '' \<longrightarrow>
      verifyToken rt cfg now (''Bearer '' @ tok) = verifyToken rt cfg now tok) \<and>
   (tok \<noteq> [] \<and> trim (if startsWith tok ''Bearer '' then slice tok 7 else tok) = [] \<longrightarrow>
      verifyToken rt cfg now tok = Inl (coded_Error ''Token cannot be empty'' ''EMPTY_TOKEN'' 400)) \<and>
   verifyToken rt cfg now [] =
      Inl (coded_Error ''Token must be a valid string'' ''INVALID_TOKEN_FORMAT'' 400)"
proof (intro conjI impI)
  assume a: "tok \<noteq> [] \<and> \<not> startsWith tok ''Bearer ''"
  have "verifyToken_try rt cfg now (''Bearer '' @ tok) = verifyToken_try rt cfg now tok"
    using a by (simp add: verifyToken_try_def startsWith_def slice_def)
  then show "verifyToken rt cfg now (''Bearer '' @ tok) = verifyToken rt cfg now tok"
    by (simp add: verifyToken_def)
next
  assume "tok \<noteq> [] \<and> trim (if startsWith tok ''Bearer '' then slice tok 7 else tok) = []"
  then show "verifyToken rt cfg now tok = Inl (coded_Error ''Token cannot be empty'' ''EMPTY_TOKEN'' 400)"
    by (simp add: verifyToken_def verifyToken_try_def Let_def)
next
  show "verifyToken rt cfg now [] =
      Inl (coded_Error ''Token must be a valid string'' ''INVALID_TOKEN_FORMAT'' 400)"
    by (rule verifyToken_empty)
qed

text \<open>
  An instance of C8: \<open>tokenA\<close> with and without the prefix, and the prefix followed
  by blanks.
\<close>

theorem verifyToken_prefix_and_empty_witness:
  "verifyToken example_runtime example_config 1500 ''Bearer tokenA''
     = verifyToken example_runtime example_config 1500 ''tokenA'' \<and>
   verifyToken example_runtime example_config 1500 ''tokenA''
     = Inr (example_claims ''a@WareOnGo.com'' 1000) \<and>
   verifyToken example_runtime example_config 1500 ''Bearer   ''
     = Inl (coded_Error ''Token cannot be empty'' ''EMPTY_TOKEN'' 400)"
proof -
  have a: "''tokenA'' \<noteq> [] \<and> \<not> startsWith ''tokenA'' ''Bearer ''" by code_simp
  have b: "''Bearer   '' \<noteq> [] \<and>
           trim (if startsWith ''Bearer   '' ''Bearer '' then slice ''Bearer   '' 7 else ''Bearer   '') = []"
    by code_simp
  have ok: "verifyToken example_runtime example_config 1500 ''tokenA''
              = Inr (example_claims ''a@WareOnGo.com'' 1000)" by code_simp
  from verifyToken_prefix_and_empty[of "''tokenA''" example_runtime example_config 1500] a
  have 1: "verifyToken example_runtime example_config 1500 ''Bearer tokenA''
     = verifyToken example_runtime example_config 1500 ''tokenA''" by simp
  from verifyToken_prefix_and_empty[of "''Bearer   ''" example_runtime example_config 1500] b
  have 2: "verifyToken example_runtime example_config 1500 ''Bearer   ''
     = Inl (coded_Error ''Token cannot be empty'' ''EMPTY_TOKEN'' 400)" by blast
  from 1 2 ok show ?thesis by simp
qed

text \<open>
  Against C8 as stated: the empty string is rejected with
  \<^verbatim>\<open>INVALID_TOKEN_FORMAT\<close>, not \<^verbatim>\<open>EMPTY_TOKEN\<close>, and so the prefixed empty token and the
  bare empty token do not verify the same.
\<close>

theorem verifyToken_empty_string_counterexample:
  "verifyToken example_runtime example_config 1500 [] =
     Inl \<lparr>err_name = ''Error'', message = ''Token must be a valid string'',
          code = Some ''INVALID_TOKEN_FORMAT'', statusCode = Some 400,
          originalError = None, userDomain = None, allowedDomain = None\<rparr> \<and>
   verifyToken example_runtime example_config 1500 (''Bearer '' @ []) =
     Inl \<lparr>err_name = ''Error'', message = ''Token cannot be empty'',
          code = Some ''EMPTY_TOKEN'', statusCode = Some 400,
          originalError = None, userDomain = None, allowedDomain = None\<rparr>"
  by code_simp

section \<open>The middleware\<close>

text \<open>
  C3, as the code has it. Without an extractable token the response is 401 with the code
  \<^verbatim>\<open>UNAUTHORIZED\<close>. When verification fails, the response is that of
  \<open>handleAuthenticationError\<close>: status 403 for \<^verbatim>\<open>INVALID_DOMAIN\<close> and 401 for every
  other code, known or not, with the response code given by the table below. When
  verification succeeds, the identity and the token's issue and expiry times are attached
  and the request proceeds.
\<close>

theorem authenticateJWT_responses:
  "(extractTokenFromHeader req = None \<or> extractTokenFromHeader req = Some [] \<longrightarrow>
      authenticateJWT rt cfg now req =
        Responded \<lparr>res_status = 401, res_error = ''No authentication token provided'',
                   res_code = ''UNAUTHORIZED''\<rparr>) \<and>
   (\<forall>tok e. extractTokenFromHeader req = Some tok \<and> tok \<noteq> [] \<and>
             verifyToken rt cfg now tok = Inl e \<longrightarrow>
      authenticateJWT rt cfg now req = Responded (handleAuthenticationError e) \<and>
      res_status (handleAuthenticationError e) =
        (if code e = Some ''INVALID_DOMAIN'' then 403 else 401) \<and>
      res_code (handleAuthenticationError e) =
        (if code e = Some ''TOKEN_EXPIRED'' then ''TOKEN_EXPIRED''
         else if code e = Some ''INVALID_TOKEN'' \<or> code e = Some ''INVALID_TOKEN_FORMAT''
                 \<or> code e = Some ''INVALID_TOKEN_PAYLOAD'' then ''INVALID_TOKEN''
         else if code e = Some ''EMPTY_TOKEN'' then ''MISSING_TOKEN''
         else if code e = Some ''INVALID_DOMAIN'' then ''DOMAIN_RESTRICTED''
         else if code e = Some ''TOKEN_NOT_ACTIVE'' then ''TOKEN_NOT_ACTIVE''
         else ''AUTH_FAILED'')) \<and>
   (\<forall>tok d. extractTokenFromHeader req = Some tok \<and> verifyToken rt cfg now tok = Inr d \<longrightarrow>
      authenticateJWT rt cfg now req =
        Next (req\<lparr>user := Present \<lparr>id' = id' d, email = email d, name = name d,
                                   picture = picture d, domain = domain d,
                                   isAuthenticated = True\<rparr>,
                  tokenInfo := Some \<lparr>token = tok, issuedAt = iat d, expiresAt = exp d\<rparr>\<rparr>))"
proof (intro conjI allI impI)
  assume "extractTokenFromHeader req = None \<or> extractTokenFromHeader req = Some []"
  then show "authenticateJWT rt cfg now req =
        Responded \<lparr>res_status = 401, res_error = ''No authentication token provided'',
                   res_code = ''UNAUTHORIZED''\<rparr>"
    by (auto simp: authenticateJWT_def sendUnauthorizedResponse_def)
next
  fix tok e
  assume a: "extractTokenFromHeader req = Some tok \<and> tok \<noteq> [] \<and> verifyToken rt cfg now tok = Inl e"
  then show "authenticateJWT rt cfg now req = Responded (handleAuthenticationError e)"
    by (simp add: authenticateJWT_def)
  show "res_status (handleAuthenticationError e) =
        (if code e = Some ''INVALID_DOMAIN'' then 403 else 401)"
    by (simp add: handleAuthenticationError_def sendUnauthorizedResponse_def
          sendForbiddenResponse_def Let_def)
  show "res_code (handleAuthenticationError e) =
        (if code e = Some ''TOKEN_EXPIRED'' then ''TOKEN_EXPIRED''
         else if code e = Some ''INVALID_TOKEN'' \<or> code e = Some ''INVALID_TOKEN_FORMAT''
                 \<or> code e = Some ''INVALID_TOKEN_PAYLOAD'' then ''INVALID_TOKEN''
         else if code e = Some ''EMPTY_TOKEN'' then ''MISSING_TOKEN''
         else if code e = Some ''INVALID_DOMAIN'' then ''DOMAIN_RESTRICTED''
         else if code e = Some ''TOKEN_NOT_ACTIVE'' then ''TOKEN_NOT_ACTIVE''
         else ''AUTH_FAILED'')"
    by (simp add: handleAuthenticationError_def sendUnauthorizedResponse_def
          sendForbiddenResponse_def Let_def)
next
  fix tok d
  assume a: "extractTokenFromHeader req = Some tok \<and> verifyToken rt cfg now tok = Inr d"
  then have "tok \<noteq> []" using verifyToken_empty[of rt cfg now] by auto
  then show "authenticateJWT rt cfg now req =
        Next (req\<lparr>user := Present \<lparr>id' = id' d, email = email d, name = name d,
                                   picture = picture d, domain = domain d,
                                   isAuthenticated = True\<rparr>,
                  tokenInfo := Some \<lparr>token = tok, issuedAt = iat d, expiresAt = exp d\<rparr>\<rparr>)"
    using a by (simp add: authenticateJWT_def attach_def)
qed

text \<open>
  An instance of C3: a valid token, the same token after its expiry, and a header of
  another scheme.
\<close>

theorem authenticateJWT_responses_witness:
  "authenticateJWT example_runtime example_config 1500
       \<lparr>authorization = Some ''Bearer tokenA'', user = Absent, tokenInfo = None\<rparr> =
     Next \<lparr>authorization = Some ''Bearer tokenA'',
           user = Present \<lparr>id' = JStr ''1'', email = JStr ''a@WareOnGo.com'', name = JStr ''A'',
                           picture = JUndefined, domain = JStr ''WareOnGo.com'',
                           isAuthenticated = True\<rparr>,
           tokenInfo = Some \<lparr>token = ''tokenA'', issuedAt = JNum 1000, expiresAt = JNum 87400\<rparr>\<rparr> \<and>
   authenticateJWT example_runtime example_config 90000
       \<lparr>authorization = Some ''Bearer tokenA'', user = Absent, tokenInfo = None\<rparr> =
     Responded \<lparr>res_status = 401, res_error = ''Your session has expired. Please sign in again.'',
                res_code = ''TOKEN_EXPIRED''\<rparr> \<and>
   authenticateJWT example_runtime example_config 1500
       \<lparr>authorization = Some ''Basic dXNlcjpwdw=='', user = Absent, tokenInfo = None\<rparr> =
     Responded \<lparr>res_status = 401, res_error = ''No authentication token provided'',
                res_code = ''UNAUTHORIZED''\<rparr>"
proof -
  let ?req = "\<lparr>authorization = Some ''Bearer tokenA'', user = Absent, tokenInfo = None\<rparr>"
  let ?basic = "\<lparr>authorization = Some ''Basic dXNlcjpwdw=='', user = Absent, tokenInfo = None\<rparr>"
  have x: "extractTokenFromHeader ?req = Some ''tokenA''" by code_simp
  have xb: "extractTokenFromHeader ?basic = None" by code_simp
  have ok: "verifyToken example_runtime example_config 1500 ''tokenA''
              = Inr (example_claims ''a@WareOnGo.com'' 1000)" by code_simp
  have ex: "verifyToken example_runtime example_config 90000 ''tokenA'' =
     Inl \<lparr>err_name = ''Error'', message = ''Your session has expired. Please sign in again.'',
          code = Some ''TOKEN_EXPIRED'', statusCode = Some 401,
          originalError = Some ''jwt expired'', userDomain = None, allowedDomain = None\<rparr>"
    by code_simp
  have h: "handleAuthenticationError
      \<lparr>err_name = ''Error'', message = ''Your session has expired. Please sign in again.'',
          code = Some ''TOKEN_EXPIRED'', statusCode = Some 401,
          originalError = Some ''jwt expired'', userDomain = None, allowedDomain = None\<rparr>
     = \<lparr>res_status = 401, res_error = ''Your session has expired. Please sign in again.'',
                res_code = ''TOKEN_EXPIRED''\<rparr>" by code_simp
  from authenticateJWT_responses[of ?req example_runtime example_config 1500] x ok
  have 1: "authenticateJWT example_runtime example_config 1500 ?req =
     Next \<lparr>authorization = Some ''Bearer tokenA'',
           user = Present \<lparr>id' = JStr ''1'', email = JStr ''a@WareOnGo.com'', name = JStr ''A'',
                           picture = JUndefined, domain = JStr ''WareOnGo.com'',
                           isAuthenticated = True\<rparr>,
           tokenInfo = Some \<lparr>token = ''tokenA'', issuedAt = JNum 1000, expiresAt = JNum 87400\<rparr>\<rparr>"
    by (simp add: example_claims_def)
  from authenticateJWT_responses[of ?req example_runtime example_config 90000] x ex h
  have 2: "authenticateJWT example_runtime example_config 90000 ?req =
     Responded \<lparr>res_status = 401, res_error = ''Your session has expired. Please sign in again.'',
                res_code = ''TOKEN_EXPIRED''\<rparr>"
    by simp
  from authenticateJWT_responses[of ?basic example_runtime example_config 1500] xb
  have 3: "authenticateJWT example_runtime example_config 1500 ?basic =
     Responded \<lparr>res_status = 401, res_error = ''No authentication token provided'',
                res_code = ''UNAUTHORIZED''\<rparr>"
    by simp
  from 1 2 3 show ?thesis by simp
qed

text \<open>
  Against C3 as stated: a request without the header is answered with the code
  \<^verbatim>\<open>UNAUTHORIZED\<close>, not a missing-token code; and an error with a code outside the
  table and the status code 400 is answered with status 401.
\<close>

theorem authenticateJWT_missing_token_counterexample:
  "authenticateJWT example_runtime example_config 1500
       \<lparr>authorization = None, user = Absent, tokenInfo = None\<rparr> =
     Responded \<lparr>res_status = 401, res_error = ''No authentication token provided'',
                res_code = ''UNAUTHORIZED''\<rparr> \<and>
   verifyToken example_runtime example_config 1500 ''tokenC'' =
     Inl \<lparr>err_name = ''Error'', message = ''Invalid email format'',
          code = Some ''TOKEN_VERIFICATION_ERROR'', statusCode = Some 400,
          originalError = None, userDomain = None, allowedDomain = None\<rparr> \<and>
   authenticateJWT example_runtime example_config 1500
       \<lparr>authorization = Some ''Bearer tokenC'', user = Absent, tokenInfo = None\<rparr> =
     Responded \<lparr>res_status = 401, res_error = ''Invalid email format'', res_code = ''AUTH_FAILED''\<rparr>"
  by code_simp

text \<open>
  C9. The optional middleware never responds itself: without an extractable token, or
  when verification fails, it sets the user to null and proceeds; when verification
  succeeds it attaches the identity and proceeds.
\<close>

theorem optionalAuthentication_never_rejects:
  "(\<forall>r. optionalAuthentication rt cfg now req \<noteq> Responded r) \<and>
   (extractTokenFromHeader req = None \<longrightarrow>
      optionalAuthentication rt cfg now req = Next (req\<lparr>user := IsNull\<rparr>)) \<and>
   (\<forall>tok e. extractTokenFromHeader req = Some tok \<and> verifyToken rt cfg now tok = Inl e \<longrightarrow>
      optionalAuthentication rt cfg now req = Next (req\<lparr>user := IsNull\<rparr>)) \<and>
   (\<forall>tok d. extractTokenFromHeader req = Some tok \<and> verifyToken rt cfg now tok = Inr d \<longrightarrow>
      optionalAuthentication rt cfg now req =
        Next (req\<lparr>user := Present \<lparr>id' = id' d, email = email d, name = name d,
                                   picture = picture d, domain = domain d,
                                   isAuthenticated = True\<rparr>,
                  tokenInfo := Some \<lparr>token = tok, issuedAt = iat d, expiresAt = exp d\<rparr>\<rparr>))"
proof (intro conjI allI impI)
  fix r show "optionalAuthentication rt cfg now req \<noteq> Responded r"
    by (simp add: optionalAuthentication_def split: option.splits sum.splits)
next
  assume "extractTokenFromHeader req = None"
  then show "optionalAuthentication rt cfg now req = Next (req\<lparr>user := IsNull\<rparr>)"
    by (simp add: optionalAuthentication_def)
next
  fix tok e
  assume "extractTokenFromHeader req = Some tok \<and> verifyToken rt cfg now tok = Inl e"
  then show "optionalAuthentication rt cfg now req = Next (req\<lparr>user := IsNull\<rparr>)"
    by (simp add: optionalAuthentication_def)
next
  fix tok d
  assume a: "extractTokenFromHeader req = Some tok \<and> verifyToken rt cfg now tok = Inr d"
  then have "tok \<noteq> []" using verifyToken_empty[of rt cfg now] by auto
  then show "optionalAuthentication rt cfg now req =
        Next (req\<lparr>user := Present \<lparr>id' = id' d, email = email d, name = name d,
                                   picture = picture d, domain = domain d,
                                   isAuthenticated = True\<rparr>,
                  tokenInfo := Some \<lparr>token = tok, issuedAt = iat d, expiresAt = exp d\<rparr>\<rparr>)"
    using a by (simp add: optionalAuthentication_def attach_def)
qed

text \<open>
  An instance of C9: a valid token, the same token after its expiry, and no header.
\<close>

theorem optionalAuthentication_never_rejects_witness:
  "optionalAuthentication example_runtime example_config 1500
       \<lparr>authorization = Some ''Bearer tokenA'', user = Absent, tokenInfo = None\<rparr> =
     Next \<lparr>authorization = Some ''Bearer tokenA'',
           user = Present \<lparr>id' = JStr ''1'', email = JStr ''a@WareOnGo.com'', name = JStr ''A'',
                           picture = JUndefined, domain = JStr ''WareOnGo.com'',
                           isAuthenticated = True\<rparr>,
           tokenInfo = Some \<lparr>token = ''tokenA'', issuedAt = JNum 1000, expiresAt = JNum 87400\<rparr>\<rparr> \<and>
   optionalAuthentication example_runtime example_config 90000
       \<lparr>authorization = Some ''Bearer tokenA'', user = Absent, tokenInfo = None\<rparr> =
     Next \<lparr>authorization = Some ''Bearer tokenA'', user = IsNull, tokenInfo = None\<rparr> \<and>
   optionalAuthentication example_runtime example_config 1500
       \<lparr>authorization = None, user = Absent, tokenInfo = None\<rparr> =
     Next \<lparr>authorization = None, user = IsNull, tokenInfo = None\<rparr>"
proof -
  let ?req = "\<lparr>authorization = Some ''Bearer tokenA'', user = Absent, tokenInfo = None\<rparr>"
  let ?none = "\<lparr>authorization = None, user = Absent, tokenInfo = None\<rparr>"
  have x: "extractTokenFromHeader ?req = Some ''tokenA''" by code_simp
  have xn: "extractTokenFromHeader ?none = None" by code_simp
  have ok: "verifyToken example_runtime example_config 1500 ''tokenA''
              = Inr (example_claims ''a@WareOnGo.com'' 1000)" by code_simp
  have ex: "verifyToken example_runtime example_config 90000 ''tokenA'' =
     Inl \<lparr>err_name = ''Error'', message = ''Your session has expired. Please sign in again.'',
          code = Some ''TOKEN_EXPIRED'', statusCode = Some 401,
          originalError = Some ''jwt expired'', userDomain = None, allowedDomain = None\<rparr>"
    by code_simp
  from optionalAuthentication_never_rejects[of example_runtime example_config 1500 ?req] x ok
  have 1: "optionalAuthentication example_runtime example_config 1500 ?req =
     Next \<lparr>authorization = Some ''Bearer tokenA'',
           user = Present \<lparr>id' = JStr ''1'', email = JStr ''a@WareOnGo.com'', name = JStr ''A'',
                           picture = JUndefined, domain = JStr ''WareOnGo.com'',
                           isAuthenticated = True\<rparr>,
           tokenInfo = Some \<lparr>token = ''tokenA'', issuedAt = JNum 1000, expiresAt = JNum 87400\<rparr>\<rparr>"
    by (simp add: example_claims_def)
  from optionalAuthentication_never_rejects[of example_runtime example_config 90000 ?req] x ex
  have 2: "optionalAuthentication example_runtime example_config 90000 ?req =
     Next \<lparr>authorization = Some ''Bearer tokenA'', user = IsNull, tokenInfo = None\<rparr>"
    by simp
  from optionalAuthentication_never_rejects[of example_runtime example_config 1500 ?none] xn
  have 3: "optionalAuthentication example_runtime example_config 1500 ?none =
     Next \<lparr>authorization = None, user = IsNull, tokenInfo = None\<rparr>"
    by simp
  from 1 2 3 show ?thesis by simp
qed

section \<open>The identity provider gateway and the callback\<close>



text \<open>
  C7, as the code has it. \<^verbatim>\<open>handleOAuthCallback\<close> always answers with a redirect to the
  front-end URL. With an error parameter the message is that of
  \<open>getOAuthErrorMessage\<close>; without error and code it is the fixed text; when the flow or
  the token issue fails it is the message of the error that was thrown (or a fixed text
  when that message is empty); otherwise the redirect carries the token and the
  identity.
\<close>

theorem handleOAuthCallback_redirects:
  "(\<exists>u. handleOAuthCallback rt cfg net now q = Redirect (server_frontendUrl cfg @ u)) \<and>
   (truthy (q_error q) \<longrightarrow>
      handleOAuthCallback rt cfg net now q =
        Redirect (server_frontendUrl cfg @ ''/?error='' @
          encodeURIComponent rt (toString (getOAuthErrorMessage (q_error q) (q_error_description q))))) \<and>
   (\<not> truthy (q_error q) \<and> \<not> truthy (q_code q) \<longrightarrow>
      handleOAuthCallback rt cfg net now q =
        Redirect (server_frontendUrl cfg @ ''/?error='' @
          encodeURIComponent rt ''Authorization code is required'')) \<and>
   (\<forall>e. \<not> truthy (q_error q) \<and> truthy (q_code q) \<and>
        completeOAuthFlow cfg net (q_code q) = Inl e \<longrightarrow>
      handleOAuthCallback rt cfg net now q =
        Redirect (server_frontendUrl cfg @ ''/?error='' @
          encodeURIComponent rt (if message e = [] then ''Authentication failed'' else message e))) \<and>
   (\<forall>r e. \<not> truthy (q_error q) \<and> truthy (q_code q) \<and>
          completeOAuthFlow cfg net (q_code q) = Inr r \<and>
          generateToken rt cfg now (Some (oauth_user r)) JNull = Inl e \<longrightarrow>
      handleOAuthCallback rt cfg net now q =
        Redirect (server_frontendUrl cfg @ ''/?error='' @
          encodeURIComponent rt (if message e = [] then ''Authentication failed'' else message e))) \<and>
   (\<forall>r tok. \<not> truthy (q_error q) \<and> truthy (q_code q) \<and>
            completeOAuthFlow cfg net (q_code q) = Inr r \<and>
            generateToken rt cfg now (Some (oauth_user r)) JNull = Inr tok \<longrightarrow>
      (\<exists>d. extractDomain (email (oauth_user r)) = Inr d \<and>
           handleOAuthCallback rt cfg net now q =
             Redirect (server_frontendUrl cfg @ ''/auth/callback?token='' @
               encodeURIComponent rt tok @ ''&user='' @
               encodeURIComponent rt (JSON_stringify rt
                 \<lparr>id' = id' (oauth_user r), email = email (oauth_user r),
                  name = name (oauth_user r), picture = picture (oauth_user r),
                  domain = JStr d\<rparr>))))"
proof (intro conjI allI impI)
  show "\<exists>u. handleOAuthCallback rt cfg net now q = Redirect (server_frontendUrl cfg @ u)"
    by (auto simp: handleOAuthCallback_def handleOAuthCallback_try_def split: sum.splits)
next
  assume "truthy (q_error q)"
  then show "handleOAuthCallback rt cfg net now q =
        Redirect (server_frontendUrl cfg @ ''/?error='' @
          encodeURIComponent rt (toString (getOAuthErrorMessage (q_error q) (q_error_description q))))"
    by (simp add: handleOAuthCallback_def handleOAuthCallback_try_def)
next
  assume "\<not> truthy (q_error q) \<and> \<not> truthy (q_code q)"
  then show "handleOAuthCallback rt cfg net now q =
        Redirect (server_frontendUrl cfg @ ''/?error='' @
          encodeURIComponent rt ''Authorization code is required'')"
    by (simp add: handleOAuthCallback_def handleOAuthCallback_try_def)
next
  fix e
  assume "\<not> truthy (q_error q) \<and> truthy (q_code q) \<and> completeOAuthFlow cfg net (q_code q) = Inl e"
  then show "handleOAuthCallback rt cfg net now q =
        Redirect (server_frontendUrl cfg @ ''/?error='' @
          encodeURIComponent rt (if message e = [] then ''Authentication failed'' else message e))"
    by (simp add: handleOAuthCallback_def handleOAuthCallback_try_def)
next
  fix r e
  assume "\<not> truthy (q_error q) \<and> truthy (q_code q) \<and>
          completeOAuthFlow cfg net (q_code q) = Inr r \<and>
          generateToken rt cfg now (Some (oauth_user r)) JNull = Inl e"
  then show "handleOAuthCallback rt cfg net now q =
        Redirect (server_frontendUrl cfg @ ''/?error='' @
          encodeURIComponent rt (if message e = [] then ''Authentication failed'' else message e))"
    by (simp add: handleOAuthCallback_def handleOAuthCallback_try_def)
next
  fix r tok
  assume a: "\<not> truthy (q_error q) \<and> truthy (q_code q) \<and>
            completeOAuthFlow cfg net (q_code q) = Inr r \<and>
            generateToken rt cfg now (Some (oauth_user r)) JNull = Inr tok"
  then obtain d where d: "extractDomain (email (oauth_user r)) = Inr d"
    using generateToken_extractDomain by blast
  then show "\<exists>d. extractDomain (email (oauth_user r)) = Inr d \<and>
           handleOAuthCallback rt cfg net now q =
             Redirect (server_frontendUrl cfg @ ''/auth/callback?token='' @
               encodeURIComponent rt tok @ ''&user='' @
               encodeURIComponent rt (JSON_stringify rt
                 \<lparr>id' = id' (oauth_user r), email = email (oauth_user r),
                  name = name (oauth_user r), picture = picture (oauth_user r),
                  domain = JStr d\<rparr>))"
    using a by (simp add: handleOAuthCallback_def handleOAuthCallback_try_def)
qed

text \<open>
  An instance of C7: a cancelled sign-in, a missing code, a profile of another domain and
  a successful sign-in.
\<close>

theorem handleOAuthCallback_redirects_witness:
  "handleOAuthCallback example_runtime example_config example_network 1000
      \<lparr>q_code = JUndefined, q_error = JStr ''access_denied'',
       q_error_description = JStr ''The user denied the request'', q_state = JUndefined\<rparr> =
     Redirect ''http://localhost:3000/?error=You cancelled the sign-in process. Please try again to access the application.'' \<and>
   handleOAuthCallback example_runtime example_config example_network 1000
      \<lparr>q_code = JUndefined, q_error = JUndefined, q_error_description = JUndefined,
       q_state = JUndefined\<rparr> =
     Redirect ''http://localhost:3000/?error=Authorization code is required'' \<and>
   handleOAuthCallback example_runtime example_config example_network 1000
      \<lparr>q_code = JStr ''code-b'', q_error = JUndefined, q_error_description = JUndefined,
       q_state = JUndefined\<rparr> =
     Redirect ''http://localhost:3000/?error=Access restricted to @wareongo.com accounts. Found: @other.com'' \<and>
   handleOAuthCallback example_runtime example_config example_network 1000
      \<lparr>q_code = JStr ''code-a'', q_error = JUndefined, q_error_description = JUndefined,
       q_state = JUndefined\<rparr> =
     Redirect ''http://localhost:3000/auth/callback?token=tokenP&user=a@WareOnGo.com''"
proof -
  let ?q1 = "\<lparr>q_code = JUndefined, q_error = JStr ''access_denied'',
       q_error_description = JStr ''The user denied the request'', q_state = JUndefined\<rparr>"
  let ?q2 = "\<lparr>q_code = JUndefined, q_error = JUndefined, q_error_description = JUndefined,
       q_state = JUndefined\<rparr>"
  let ?q3 = "\<lparr>q_code = JStr ''code-b'', q_error = JUndefined, q_error_description = JUndefined,
       q_state = JUndefined\<rparr>"
  let ?q4 = "\<lparr>q_code = JStr ''code-a'', q_error = JUndefined, q_error_description = JUndefined,
       q_state = JUndefined\<rparr>"
  let ?prof = "\<lparr>id' = JStr ''1'', email = JStr ''a@WareOnGo.com'', name = JStr ''A'',
          picture = JStr [], verified_email = JBool False, locale' = JStr ''en''\<rparr>"
  let ?res = "\<lparr>oauth_user = ?prof,
                tokens = \<lparr>t_accessToken = JStr ''at-a'', t_refreshToken = JUndefined,
                          t_expiresIn = JUndefined, t_tokenType = JStr ''Bearer''\<rparr>\<rparr>"
  have m1: "server_frontendUrl example_config @ ''/?error='' @
          encodeURIComponent example_runtime
            (toString (getOAuthErrorMessage (q_error ?q1) (q_error_description ?q1)))
      = ''http://localhost:3000/?error=You cancelled the sign-in process. Please try again to access the application.''"
    by code_simp
  have m2: "server_frontendUrl example_config @ ''/?error='' @
          encodeURIComponent example_runtime ''Authorization code is required''
      = ''http://localhost:3000/?error=Authorization code is required''"
    by code_simp
  have f3: "completeOAuthFlow example_config example_network (q_code ?q3) =
     Inl \<lparr>err_name = ''Error'',
          message = ''Access restricted to @wareongo.com accounts. Found: @other.com'',
          code = Some ''DOMAIN_RESTRICTED'', statusCode = Some 403, originalError = None,
          userDomain = Some ''other.com'', allowedDomain = Some ''wareongo.com''\<rparr>"
    by code_simp
  have m3: "server_frontendUrl example_config @ ''/?error='' @ encodeURIComponent example_runtime
              ''Access restricted to @wareongo.com accounts. Found: @other.com''
      = ''http://localhost:3000/?error=Access restricted to @wareongo.com accounts. Found: @other.com''"
    by code_simp
  have f4: "completeOAuthFlow example_config example_network (q_code ?q4) = Inr ?res"
    by code_simp
  have g4: "generateToken example_runtime example_config 1000 (Some (oauth_user ?res)) JNull
              = Inr ''tokenP''"
    by code_simp
  have d4: "extractDomain (email (oauth_user ?res)) = Inr ''WareOnGo.com''" by code_simp
  have m4: "server_frontendUrl example_config @ ''/auth/callback?token='' @
               encodeURIComponent example_runtime ''tokenP'' @ ''&user='' @
               encodeURIComponent example_runtime (JSON_stringify example_runtime
                 \<lparr>id' = id' (oauth_user ?res), email = email (oauth_user ?res),
                  name = name (oauth_user ?res), picture = picture (oauth_user ?res),
                  domain = JStr ''WareOnGo.com''\<rparr>)
      = ''http://localhost:3000/auth/callback?token=tokenP&user=a@WareOnGo.com''"
    by code_simp
  from handleOAuthCallback_redirects[of example_runtime example_config example_network 1000 ?q1] m1
  have 1: "handleOAuthCallback example_runtime example_config example_network 1000 ?q1 =
     Redirect ''http://localhost:3000/?error=You cancelled the sign-in process. Please try again to access the application.''"
    by simp
  from handleOAuthCallback_redirects[of example_runtime example_config example_network 1000 ?q2] m2
  have 2: "handleOAuthCallback example_runtime example_config example_network 1000 ?q2 =
     Redirect ''http://localhost:3000/?error=Authorization code is required''"
    by simp
  have t3: "\<not> truthy (q_error ?q3) \<and> truthy (q_code ?q3)" by simp
  from handleOAuthCallback_redirects[of example_runtime example_config example_network 1000 ?q3]
  have "\<forall>e. \<not> truthy (q_error ?q3) \<and> truthy (q_code ?q3) \<and>
        completeOAuthFlow example_config example_network (q_code ?q3) = Inl e \<longrightarrow>
      handleOAuthCallback example_runtime example_config example_network 1000 ?q3 =
        Redirect (server_frontendUrl example_config @ ''/?error='' @
          encodeURIComponent example_runtime (if message e = [] then ''Authentication failed'' else message e))"
    by blast
  with t3 f3 m3
  have 3: "handleOAuthCallback example_runtime example_config example_network 1000 ?q3 =
     Redirect ''http://localhost:3000/?error=Access restricted to @wareongo.com accounts. Found: @other.com''"
    by simp
  have t4: "\<not> truthy (q_error ?q4) \<and> truthy (q_code ?q4)" by simp
  from handleOAuthCallback_redirects[of example_runtime example_config example_network 1000 ?q4]
  have "\<forall>r tok. \<not> truthy (q_error ?q4) \<and> truthy (q_code ?q4) \<and>
            completeOAuthFlow example_config example_network (q_code ?q4) = Inr r \<and>
            generateToken example_runtime example_config 1000 (Some (oauth_user r)) JNull = Inr tok \<longrightarrow>
      (\<exists>d. extractDomain (email (oauth_user r)) = Inr d \<and>
           handleOAuthCallback example_runtime example_config example_network 1000 ?q4 =
             Redirect (server_frontendUrl example_config @ ''/auth/callback?token='' @
               encodeURIComponent example_runtime tok @ ''&user='' @
               encodeURIComponent example_runtime (JSON_stringify example_runtime
                 \<lparr>id' = id' (oauth_user r), email = email (oauth_user r),
                  name = name (oauth_user r), picture = picture (oauth_user r),
                  domain = JStr d\<rparr>)))"
    by blast
  with t4 f4 g4 have "\<exists>d. extractDomain (email (oauth_user ?res)) = Inr d \<and>
           handleOAuthCallback example_runtime example_config example_network 1000 ?q4 =
             Redirect (server_frontendUrl example_config @ ''/auth/callback?token='' @
               encodeURIComponent example_runtime ''tokenP'' @ ''&user='' @
               encodeURIComponent example_runtime (JSON_stringify example_runtime
                 \<lparr>id' = id' (oauth_user ?res), email = email (oauth_user ?res),
                  name = name (oauth_user ?res), picture = picture (oauth_user ?res),
                  domain = JStr d\<rparr>))"
    by blast
  with d4 m4
  have 4: "handleOAuthCallback example_runtime example_config example_network 1000 ?q4 =
     Redirect ''http://localhost:3000/auth/callback?token=tokenP&user=a@WareOnGo.com''"
    by auto
  from 1 2 3 4 show ?thesis by blast
qed

text \<open>
  Against C7 as stated: when the provider rejects the code exchange with an error the
  service does not know, the redirect carries the message of the internal error, which
  embeds the provider's description; and an error parameter outside the dictionary
  is answered with the provider's description as it came.
\<close>

theorem handleOAuthCallback_raw_message_counterexample:
  "completeOAuthFlow example_config example_network (JStr ''code-x'') =
     Inl \<lparr>err_name = ''Error'',
          message = ''Google OAuth token exchange failed: redirect_uri http://10.0.0.7:3001/cb is not registered'',
          code = Some ''OAUTH_REQUEST_ERROR'', statusCode = Some 400, originalError = None,
          userDomain = None, allowedDomain = None\<rparr> \<and>
   handleOAuthCallback example_runtime example_config example_network 1000
      \<lparr>q_code = JStr ''code-x'', q_error = JUndefined, q_error_description = JUndefined,
       q_state = JUndefined\<rparr> =
     Redirect ''http://localhost:3000/?error=Google OAuth token exchange failed: redirect_uri http://10.0.0.7:3001/cb is not registered'' \<and>
   handleOAuthCallback example_runtime example_config example_network 1000
      \<lparr>q_code = JUndefined, q_error = JStr ''interaction_required'',
       q_error_description = JStr ''raw provider text'', q_state = JUndefined\<rparr> =
     Redirect ''http://localhost:3000/?error=raw provider text''"
  by code_simp

end
